theory Spec2Isabelle
  imports Main "HOL-Library.List_Lexorder" "HOL-Library.AList"
begin

section \<open>JavaScript strings\<close>

text \<open>
  A JavaScript string is a sequence of UTF-16 code units. The sanitiser of the cache keys
  keeps the CJK range U+4E00..U+9FA5, \<open>charCodeAt\<close> feeds the group hash and the default
  \<open>sort\<close> compares code units, so a string is modelled as the list of its code units.
  \<open>u16\<close> embeds an ASCII literal.
\<close>

type_synonym ustring = "nat list"

definition u16 :: "string \<Rightarrow> ustring" where
  "u16 s = map of_char s"

text \<open>\<open>.\<close> of a regular expression matches every code unit but the line terminators.\<close>

definition isLineTerminator :: "nat \<Rightarrow> bool" where
  "isLineTerminator c = (c = 10 \<or> c = 13 \<or> c = 8232 \<or> c = 8233)"

text \<open>The code units removed by \<open>String.prototype.trim\<close> and matched by \<open>\s\<close>.\<close>

definition isWhiteSpace :: "nat \<Rightarrow> bool" where
  "isWhiteSpace c =
     ((9 \<le> c \<and> c \<le> 13) \<or> c = 32 \<or> c = 160 \<or> c = 5760 \<or> (8192 \<le> c \<and> c \<le> 8202)
      \<or> c = 8232 \<or> c = 8233 \<or> c = 8239 \<or> c = 8287 \<or> c = 12288 \<or> c = 65279)"

definition trim :: "ustring \<Rightarrow> ustring" where
  "trim s = rev (dropWhile isWhiteSpace (rev (dropWhile isWhiteSpace s)))"

fun join :: "ustring \<Rightarrow> ustring list \<Rightarrow> ustring" where
  "join sep [] = []"
| "join sep [x] = x"
| "join sep (x # y # ys) = x @ sep @ join sep (y # ys)"

fun stripPrefix :: "'a list \<Rightarrow> 'a list \<Rightarrow> 'a list option" where
  "stripPrefix [] s = Some s"
| "stripPrefix (p # ps) [] = None"
| "stripPrefix (p # ps) (c # cs) = (if p = c then stripPrefix ps cs else None)"

text \<open>
  \<open>splits sep s\<close> lists every way of writing \<open>s = pre @ sep @ post\<close>, shortest \<open>pre\<close>
  first. A greedy group in front of the literal \<open>sep\<close> tries them in the reverse order.
\<close>

fun splits :: "'a list \<Rightarrow> 'a list \<Rightarrow> ('a list \<times> 'a list) list" where
  "splits sep [] = (if sep = [] then [([], [])] else [])"
| "splits sep (c # cs) =
     (case stripPrefix sep (c # cs) of Some post \<Rightarrow> [([], post)] | None \<Rightarrow> [])
     @ map (\<lambda>(pre, post). (c # pre, post)) (splits sep cs)"

text \<open>The group \<open>(.+)\<close>: one or more code units, none of them a line terminator.\<close>

definition dotPlus :: "ustring \<Rightarrow> bool" where
  "dotPlus g = (g \<noteq> [] \<and> list_all (\<lambda>c. \<not> isLineTerminator c) g)"

section \<open>CacheService: the key scheme\<close>

datatype CacheKeyType =
    Summary | Mindmap | Connections | Overall_summary | Character_relationship
  | Combined_mindmap | Merged_mindmap | Mindmap_arrows | Selected_chapters
  | Chapter_tags | Custom_prompt | Use_custom_only

fun typeName :: "CacheKeyType \<Rightarrow> ustring" where
  "typeName Summary = u16 ''summary''"
| "typeName Mindmap = u16 ''mindmap''"
| "typeName Connections = u16 ''connections''"
| "typeName Overall_summary = u16 ''overall_summary''"
| "typeName Character_relationship = u16 ''character_relationship''"
| "typeName Combined_mindmap = u16 ''combined_mindmap''"
| "typeName Merged_mindmap = u16 ''merged_mindmap''"
| "typeName Mindmap_arrows = u16 ''mindmap_arrows''"
| "typeName Selected_chapters = u16 ''selected_chapters''"
| "typeName Chapter_tags = u16 ''chapter_tags''"
| "typeName Custom_prompt = u16 ''custom_prompt''"
| "typeName Use_custom_only = u16 ''use_custom_only''"

text \<open>
  \<open>filename.replace(/\.[^/.]+$/, '')\<close>: the match is a dot followed, up to the end of
  the string, by one or more code units that are neither \<open>/\<close> (47) nor \<open>.\<close> (46). It
  can only start at the last dot, and only when no slash follows that dot.
\<close>

definition removeExtension :: "ustring \<Rightarrow> ustring" where
  "removeExtension s =
     (let r = rev s;
          ext = takeWhile (\<lambda>c. c \<noteq> 47 \<and> c \<noteq> 46) r
      in case dropWhile (\<lambda>c. c \<noteq> 47 \<and> c \<noteq> 46) r of
           [] \<Rightarrow> s
         | c # stem \<Rightarrow> if c = 46 \<and> ext \<noteq> [] then rev stem else s)"

text \<open>The class of ASCII letters, digits and the code units U+4E00 to U+9FA5; every other code
  unit becomes \<open>_\<close> (95).\<close>

definition isKept :: "nat \<Rightarrow> bool" where
  "isKept c = ((97 \<le> c \<and> c \<le> 122) \<or> (65 \<le> c \<and> c \<le> 90) \<or> (48 \<le> c \<and> c \<le> 57)
               \<or> (19968 \<le> c \<and> c \<le> 40869))"

definition cleanFilename :: "ustring \<Rightarrow> ustring" where
  "cleanFilename filename = map (\<lambda>c. if isKept c then c else 95) (removeExtension filename)"

text \<open>
  \<open>generateKey\<close>: the optional \<open>chapterId\<close> is tested for truthiness, so the empty
  string takes the book-level branch like \<open>undefined\<close>.
\<close>

definition generateKey :: "ustring \<Rightarrow> CacheKeyType \<Rightarrow> ustring option \<Rightarrow> ustring" where
  "generateKey filename ty chapterId =
     (case chapterId of
        Some cid \<Rightarrow>
          if cid \<noteq> []
          then u16 ''book_'' @ cleanFilename filename @ u16 ''_chapter_'' @ cid @ u16 ''_'' @ typeName ty
          else u16 ''book_'' @ cleanFilename filename @ u16 ''_'' @ typeName ty
      | None \<Rightarrow> u16 ''book_'' @ cleanFilename filename @ u16 ''_'' @ typeName ty)"

record ParsedKey =
  bookName :: ustring
  keyType :: CacheKeyType
  chapterId :: "ustring option"

text \<open>
  \<open>parseKey\<close> matches two anchored regular expressions. A backtracking matcher tries the
  greedy first group longest first; for each candidate the rest must be the literal, a
  second group and one of the listed type names up to the end of the key.
\<close>

definition chapterTypes :: "CacheKeyType list" where
  "chapterTypes = [Summary, Mindmap]"

definition bookTypes :: "CacheKeyType list" where
  "bookTypes = [Connections, Overall_summary, Character_relationship, Combined_mindmap,
     Merged_mindmap, Mindmap_arrows, Selected_chapters, Chapter_tags, Custom_prompt,
     Use_custom_only]"

text \<open>\<open>(.+)_(t1|t2|...)$\<close> on \<open>s\<close>: the group and the first alternative that matches.\<close>

definition groupThenType :: "CacheKeyType list \<Rightarrow> ustring \<Rightarrow> (ustring \<times> CacheKeyType) option" where
  "groupThenType tys s =
     (case List.find (\<lambda>(g, t). dotPlus g \<and> (\<exists>ty \<in> set tys. typeName ty = t)) (rev (splits (u16 ''_'') s)) of
        None \<Rightarrow> None
      | Some (g, t) \<Rightarrow>
          (case List.find (\<lambda>ty. typeName ty = t) tys of
             None \<Rightarrow> None
           | Some ty \<Rightarrow> Some (g, ty)))"

definition chapterMatch :: "ustring \<Rightarrow> ParsedKey option" where
  "chapterMatch key =
     (case stripPrefix (u16 ''book_'') key of
        None \<Rightarrow> None
      | Some rest \<Rightarrow>
          (case List.find (\<lambda>(g1, post). dotPlus g1 \<and> groupThenType chapterTypes post \<noteq> None)
                  (rev (splits (u16 ''_chapter_'') rest)) of
             None \<Rightarrow> None
           | Some (g1, post) \<Rightarrow>
               (case groupThenType chapterTypes post of
                  None \<Rightarrow> None
                | Some (g2, ty) \<Rightarrow> Some \<lparr>bookName = g1, keyType = ty, chapterId = Some g2\<rparr>)))"

definition bookMatch :: "ustring \<Rightarrow> ParsedKey option" where
  "bookMatch key =
     (case stripPrefix (u16 ''book_'') key of
        None \<Rightarrow> None
      | Some rest \<Rightarrow>
          (case groupThenType bookTypes rest of
             None \<Rightarrow> None
           | Some (g1, ty) \<Rightarrow> Some \<lparr>bookName = g1, keyType = ty, chapterId = None\<rparr>))"

definition parseKey :: "ustring \<Rightarrow> ParsedKey option" where
  "parseKey key =
     (case chapterMatch key of
        Some r \<Rightarrow> Some r
      | None \<Rightarrow> bookMatch key)"

section \<open>Cached values, the store and the outside world\<close>

text \<open>
  The mind-map payload of the \<open>mind-elixir\<close> library: a root node with children (its
  fields \<open>id\<close> and \<open>tags\<close> are \<open>nodeId\<close> and \<open>nodeTags\<close> here), arrows and summaries.
  \<open>nodeData = None\<close> is an object whose \<open>nodeData\<close> key holds a falsy value (\<open>null\<close>); the
  optional arrays are \<open>None\<close> when the key is missing.
\<close>

datatype NodeObj =
  NodeObj (topic: ustring) (nodeId: ustring) (nodeTags: "ustring list option") (children: "NodeObj list")

datatype Arrow = Arrow (arrowId: ustring) (arrowLabel: ustring) (arrowFrom: ustring) (arrowTo: ustring)

datatype MindSummary = MindSummary (summaryId: ustring) (summaryLabel: ustring) (summaryParent: ustring)

record MindElixirData =
  nodeData :: "NodeObj option"
  arrows :: "Arrow list option"
  summaries :: "MindSummary list option"

text \<open>
  \<open>CacheValue\<close>, as the readers of the store tell the variants apart: \<open>VMindMap\<close> is any
  object with a \<open>nodeData\<close> key, \<open>VRecord\<close> an object without one, \<open>VArray\<close> an array.
\<close>

datatype CacheValue =
    VString ustring
  | VMindMap MindElixirData
  | VArray "ustring list"
  | VRecord "(ustring \<times> ustring) list"
  | VBoolean bool
  | VNull

text \<open>
  Errors are values. \<open>name\<close> is what \<open>err.name\<close> reads, \<open>message\<close> what \<open>err.message\<close>
  reads; the messages are kept as constructors, the wrapping ones carrying the message they
  embed.
\<close>

datatype ErrorName = AbortError | PlainError | TypeError | StoreError

datatype Message =
    RequestWasAborted | FetchAborted | RequestFailed | StoreFailed | NullAccess
  | EmptySummary | EmptyConnections | EmptyOverallSummary | EmptyCharacterRelationship
  | EmptyData | BadFormat | MindMapFailed
  | StreamGenerationFailed Message | ConnectionsFailed Message | OverallSummaryFailed Message
  | CharacterRelationshipFailed Message | ChapterMindMapFailed Message
  | CombinedMindMapFailed Message

datatype Error = Exn (name: ErrorName) (message: Message)

text \<open>
  What the stream callbacks of the user interface receive: \<open>{summary, reasoning?}\<close> from the
  per-group summary stage, \<open>{content}\<close> from the cross-chapter stages.
\<close>

datatype StreamUpdate = SummaryUpdate ustring "ustring option" | ContentUpdate ustring

text \<open>
  The generation provider answers a request with a sequence of deltas, each delivered at a
  clock reading \<open>now\<close> (\<open>Date.now()\<close>), and the request ends completed, cancelled by the
  abort signal, or broken (network failure, non-2xx status, provider error). A
  non-streaming request receives the concatenation of the deltas in one body.
  \<open>SignalAborted\<close> is a request whose abort signal is already set on entry.
\<close>

datatype Delta = Delta (contentChunk: ustring) (reasoningChunk: ustring) (now: int)

datatype Ending = Completed | Cancelled | Broken

datatype Outcome = SignalAborted | Answer "Delta list" Ending

datatype StoreOp = GetItem ustring | SetItem ustring | RemoveItem ustring | Keys

text \<open>
  The environment of a run: \<open>ai n\<close> is the outcome of the \<open>n\<close>-th generation request,
  \<open>fails\<close> says which operations of the persistence layer reject, \<open>jsonParse\<close> is
  \<open>JSON.parse\<close> (\<open>None\<close> when it throws).
\<close>

record Env =
  ai :: "nat \<Rightarrow> Outcome"
  fails :: "StoreOp \<Rightarrow> bool"
  jsonParse :: "ustring \<Rightarrow> CacheValue option"

text \<open>
  The state a run changes: the entries of the store, the number of generation requests
  made so far, and the updates delivered to the stream callbacks.
\<close>

record World =
  items :: "(ustring \<times> CacheValue) list"
  calls :: nat
  updates :: "StreamUpdate list"

type_synonym 'a io = "World \<Rightarrow> (Error + 'a) \<times> World"

definition ret :: "'a \<Rightarrow> 'a io" where
  "ret x = (\<lambda>w. (Inr x, w))"

definition throw :: "Error \<Rightarrow> 'a io" where
  "throw e = (\<lambda>w. (Inl e, w))"

definition bindIO :: "'a io \<Rightarrow> ('a \<Rightarrow> 'b io) \<Rightarrow> 'b io" where
  "bindIO m f = (\<lambda>w. case m w of (Inl e, w') \<Rightarrow> (Inl e, w') | (Inr x, w') \<Rightarrow> f x w')"

subsection \<open>The store (localforage)\<close>

definition getItem :: "Env \<Rightarrow> ustring \<Rightarrow> CacheValue io" where
  "getItem env key = (\<lambda>w.
     if fails env (GetItem key) then (Inl (Exn StoreError StoreFailed), w)
     else (Inr (case map_of (items w) key of None \<Rightarrow> VNull | Some v \<Rightarrow> v), w))"

definition setItem :: "Env \<Rightarrow> ustring \<Rightarrow> CacheValue \<Rightarrow> unit io" where
  "setItem env key v = (\<lambda>w.
     if fails env (SetItem key) then (Inl (Exn StoreError StoreFailed), w)
     else (Inr (), w\<lparr>items := AList.update key v (items w)\<rparr>))"

definition removeItem :: "Env \<Rightarrow> ustring \<Rightarrow> unit io" where
  "removeItem env key = (\<lambda>w.
     if fails env (RemoveItem key) then (Inl (Exn StoreError StoreFailed), w)
     else (Inr (), w\<lparr>items := AList.delete key (items w)\<rparr>))"

definition keys :: "Env \<Rightarrow> ustring list io" where
  "keys env = (\<lambda>w.
     if fails env Keys then (Inl (Exn StoreError StoreFailed), w)
     else (Inr (map fst (items w)), w))"

subsection \<open>CacheService: reading, writing, deleting\<close>

definition getString :: "Env \<Rightarrow> ustring \<Rightarrow> CacheKeyType \<Rightarrow> ustring option \<Rightarrow> ustring option io" where
  "getString env filename ty entityId =
     bindIO (getItem env (generateKey filename ty entityId))
       (\<lambda>value. ret (case value of VString s \<Rightarrow> Some s | _ \<Rightarrow> None))"

definition getMindMap :: "Env \<Rightarrow> ustring \<Rightarrow> CacheKeyType \<Rightarrow> ustring option \<Rightarrow> MindElixirData option io" where
  "getMindMap env filename ty entityId =
     bindIO (getItem env (generateKey filename ty entityId))
       (\<lambda>value. ret (case value of VMindMap m \<Rightarrow> Some m | _ \<Rightarrow> None))"

definition setCache :: "Env \<Rightarrow> ustring \<Rightarrow> CacheKeyType \<Rightarrow> CacheValue \<Rightarrow> ustring option \<Rightarrow> unit io" where
  "setCache env filename ty value entityId =
     setItem env (generateKey filename ty entityId) value"

text \<open>\<open>try { await removeItem(key); return true } catch { return false }\<close>\<close>

definition deleteCacheByKey :: "Env \<Rightarrow> ustring \<Rightarrow> bool io" where
  "deleteCacheByKey env key = (\<lambda>w.
     case removeItem env key w of
       (Inl e, w') \<Rightarrow> (Inr False, w')
     | (Inr u, w') \<Rightarrow> (Inr True, w'))"

definition deleteCache :: "Env \<Rightarrow> ustring \<Rightarrow> CacheKeyType \<Rightarrow> ustring option \<Rightarrow> bool io" where
  "deleteCache env filename ty entityId = (\<lambda>w.
     case removeItem env (generateKey filename ty entityId) w of
       (Inl e, w') \<Rightarrow> (Inr False, w')
     | (Inr u, w') \<Rightarrow> (Inr True, w'))"

datatype ProcessingMode = SummaryMode | MindmapMode | CombinedMindmapMode

definition startsWith :: "ustring \<Rightarrow> ustring \<Rightarrow> bool" where
  "startsWith s p = (stripPrefix p s \<noteq> None)"

definition endsWith :: "ustring \<Rightarrow> ustring \<Rightarrow> bool" where
  "endsWith s p = (stripPrefix (rev p) (rev s) \<noteq> None)"

definition includesStr :: "ustring \<Rightarrow> ustring \<Rightarrow> bool" where
  "includesStr s p = (splits p s \<noteq> [])"

text \<open>\<open>if (await this.deleteCache(fileName, type)) deletedCount++\<close>\<close>

definition countDelete :: "Env \<Rightarrow> ustring \<Rightarrow> CacheKeyType \<Rightarrow> nat \<Rightarrow> nat io" where
  "countDelete env fileName ty deletedCount =
     bindIO (deleteCache env fileName ty None)
       (\<lambda>ok. ret (if ok then deletedCount + 1 else deletedCount))"

text \<open>The loop over \<open>chapterKeys\<close>: a removal that rejects is ignored and not counted.\<close>

fun removeChapterKeys :: "Env \<Rightarrow> ustring list \<Rightarrow> nat \<Rightarrow> nat io" where
  "removeChapterKeys env [] deletedCount = ret deletedCount"
| "removeChapterKeys env (key # ks) deletedCount = (\<lambda>w.
     case removeItem env key w of
       (Inl e, w') \<Rightarrow> removeChapterKeys env ks deletedCount w'
     | (Inr u, w') \<Rightarrow> removeChapterKeys env ks (deletedCount + 1) w')"

definition chapterKeysOf :: "ustring \<Rightarrow> ustring \<Rightarrow> ustring list \<Rightarrow> ustring list" where
  "chapterKeysOf bookPrefix suffix allKeys =
     filter (\<lambda>key. startsWith key bookPrefix \<and> includesStr key (u16 ''_chapter_'') \<and> endsWith key suffix)
       allKeys"

definition clearBookCache :: "Env \<Rightarrow> ustring \<Rightarrow> ProcessingMode \<Rightarrow> nat io" where
  "clearBookCache env fileName processingMode =
     (let bookPrefix = u16 ''book_'' @ cleanFilename fileName @ u16 ''_'' in
      bindIO (countDelete env fileName Selected_chapters 0) (\<lambda>c1.
      bindIO (countDelete env fileName Chapter_tags c1) (\<lambda>c2.
        case processingMode of
          SummaryMode \<Rightarrow>
            bindIO (countDelete env fileName Connections c2) (\<lambda>c3.
            bindIO (countDelete env fileName Character_relationship c3) (\<lambda>c4.
            bindIO (countDelete env fileName Overall_summary c4) (\<lambda>c5.
            bindIO (keys env) (\<lambda>allKeys.
              removeChapterKeys env (chapterKeysOf bookPrefix (u16 ''_summary'') allKeys) c5))))
        | MindmapMode \<Rightarrow>
            bindIO (countDelete env fileName Mindmap_arrows c2) (\<lambda>c3.
            bindIO (countDelete env fileName Merged_mindmap c3) (\<lambda>c4.
            bindIO (keys env) (\<lambda>allKeys.
              removeChapterKeys env (chapterKeysOf bookPrefix (u16 ''_mindmap'') allKeys) c4)))
        | CombinedMindmapMode \<Rightarrow>
            countDelete env fileName Combined_mindmap c2)))"

section \<open>AIService\<close>

text \<open>
  The prompt of a request is built from titles, contents and options and does not reach
  the cache; the provider may answer any request in any way, so the model takes the
  outcome of each request from the environment and leaves the prompt out. A reply is the
  pair \<open>(content, reasoning)\<close>.
\<close>

type_synonym Reply = "ustring \<times> ustring"

definition generateContent :: "Outcome \<Rightarrow> Error + Reply" where
  "generateContent outcome =
     (case outcome of
        SignalAborted \<Rightarrow> Inl (Exn AbortError RequestWasAborted)
      | Answer ds Completed \<Rightarrow> Inr (concat (map contentChunk ds), concat (map reasoningChunk ds))
      | Answer ds Cancelled \<Rightarrow> Inl (Exn AbortError FetchAborted)
      | Answer ds Broken \<Rightarrow> Inl (Exn PlainError RequestFailed))"

text \<open>
  The streaming request hands every delta with a non-empty chunk to \<open>onUpdate\<close>, whose
  closure state is \<open>h\<close>. An \<open>AbortError\<close> passes through its \<open>catch\<close> unchanged, every
  other failure is wrapped.
\<close>

definition generateContentStream ::
  "Outcome \<Rightarrow> (Delta \<Rightarrow> 'h \<Rightarrow> 'h) \<Rightarrow> 'h \<Rightarrow> (Error + Reply) \<times> 'h" where
  "generateContentStream outcome onUpdate h =
     (case outcome of
        SignalAborted \<Rightarrow> (Inl (Exn AbortError RequestWasAborted), h)
      | Answer ds ending \<Rightarrow>
          (let live = filter (\<lambda>d. contentChunk d \<noteq> [] \<or> reasoningChunk d \<noteq> []) ds;
               h' = foldl (\<lambda>a d. onUpdate d a) h live
           in case ending of
                Completed \<Rightarrow>
                  (Inr (concat (map contentChunk live), concat (map reasoningChunk live)), h')
              | Cancelled \<Rightarrow> (Inl (Exn AbortError FetchAborted), h')
              | Broken \<Rightarrow> (Inl (Exn PlainError (StreamGenerationFailed RequestFailed)), h')))"

text \<open>
  The methods that \<open>BookProcessingService\<close> has under the same name carry the prefix
  \<open>AIService_\<close>. Every public method runs in
  \<open>try { ... } catch (error) { throw new Error(...) }\<close>: whatever was thrown inside, the
  caller receives a fresh \<open>Error\<close> whose name is \<open>Error\<close>. \<open>request\<close> is the choice the
  text methods make between the streaming and the plain request, by whether a callback
  was passed.
\<close>

definition rethrow :: "(Message \<Rightarrow> Message) \<Rightarrow> Error + 'a \<Rightarrow> Error + 'a" where
  "rethrow wrap r = (case r of Inl error \<Rightarrow> Inl (Exn PlainError (wrap (message error))) | Inr x \<Rightarrow> Inr x)"

definition request ::
  "Outcome \<Rightarrow> (Delta \<Rightarrow> 'h \<Rightarrow> 'h) option \<Rightarrow> 'h \<Rightarrow> (Error + Reply) \<times> 'h" where
  "request outcome onStreamUpdate h =
     (case onStreamUpdate of
        Some f \<Rightarrow> generateContentStream outcome f h
      | None \<Rightarrow> (generateContent outcome, h))"

definition summarizeChapter ::
  "Outcome \<Rightarrow> (Delta \<Rightarrow> 'h \<Rightarrow> 'h) option \<Rightarrow> 'h \<Rightarrow> (Error + Reply) \<times> 'h" where
  "summarizeChapter outcome onStreamUpdate h =
     (case request outcome onStreamUpdate h of
        (result, h') \<Rightarrow>
          (rethrow (\<lambda>m. m)
             (case result of
                Inl error \<Rightarrow> Inl error
              | Inr (c, r) \<Rightarrow>
                  if c = [] \<or> trim c = [] then Inl (Exn PlainError EmptySummary)
                  else Inr (trim c, trim r)), h'))"

definition analyzeConnections ::
  "Outcome \<Rightarrow> (Delta \<Rightarrow> 'h \<Rightarrow> 'h) option \<Rightarrow> 'h \<Rightarrow> (Error + ustring) \<times> 'h" where
  "analyzeConnections outcome onStreamUpdate h =
     (case request outcome onStreamUpdate h of
        (result, h') \<Rightarrow>
          (rethrow ConnectionsFailed
             (case result of
                Inl error \<Rightarrow> Inl error
              | Inr (c, r) \<Rightarrow>
                  if c = [] \<or> trim c = [] then Inl (Exn PlainError EmptyConnections)
                  else Inr (trim c)), h'))"

definition AIService_generateOverallSummary ::
  "Outcome \<Rightarrow> (Delta \<Rightarrow> 'h \<Rightarrow> 'h) option \<Rightarrow> 'h \<Rightarrow> (Error + ustring) \<times> 'h" where
  "AIService_generateOverallSummary outcome onStreamUpdate h =
     (case request outcome onStreamUpdate h of
        (result, h') \<Rightarrow>
          (rethrow OverallSummaryFailed
             (case result of
                Inl error \<Rightarrow> Inl error
              | Inr (c, r) \<Rightarrow>
                  if c = [] \<or> trim c = [] then Inl (Exn PlainError EmptyOverallSummary)
                  else Inr (trim c)), h'))"

text \<open>
  The fenced blocks. Both expressions are searched leftmost: the opening fence (three
  backquotes, code unit 96, then \<open>mermaid\<close>, or then an optional \<open>json\<close>), the greedy
  \<open>\s*\<close>, and the lazy body up to the next fence. White space and the letters of the tag
  contain no backquote, so backtracking into them finds no further match, and a closing
  fence for a later opening fence closes the first one too.
\<close>

definition fence :: ustring where
  "fence = [96, 96, 96]"

definition bodyUpToFence :: "ustring \<Rightarrow> ustring option" where
  "bodyUpToFence s =
     (case splits fence (dropWhile isWhiteSpace s) of
        [] \<Rightarrow> None
      | (body, rest) # others \<Rightarrow> Some body)"

definition mermaidBlock :: "ustring \<Rightarrow> ustring option" where
  "mermaidBlock s =
     (case splits (fence @ u16 ''mermaid'') s of
        [] \<Rightarrow> None
      | (pre, post) # others \<Rightarrow> bodyUpToFence post)"

definition jsonBlock :: "ustring \<Rightarrow> ustring option" where
  "jsonBlock s =
     (case splits fence s of
        [] \<Rightarrow> None
      | (pre, post) # others \<Rightarrow>
          bodyUpToFence (case stripPrefix (u16 ''json'') post of Some rest \<Rightarrow> rest | None \<Rightarrow> post))"

definition AIService_generateCharacterRelationship :: "Outcome \<Rightarrow> Error + ustring" where
  "AIService_generateCharacterRelationship outcome =
     rethrow CharacterRelationshipFailed
       (case generateContent outcome of
          Inl error \<Rightarrow> Inl error
        | Inr (relationship, r) \<Rightarrow>
            if relationship = [] \<or> trim relationship = []
            then Inl (Exn PlainError EmptyCharacterRelationship)
            else (case mermaidBlock relationship of
                    Some body \<Rightarrow> if body \<noteq> [] then Inr (trim body) else Inr (trim relationship)
                  | None \<Rightarrow> Inr (trim relationship)))"

definition parseJsonResponse :: "Env \<Rightarrow> ustring \<Rightarrow> Error + CacheValue" where
  "parseJsonResponse env response =
     (if response = [] \<or> trim response = [] then Inl (Exn PlainError EmptyData)
      else case jsonParse env (trim response) of
             Some v \<Rightarrow> Inr v
           | None \<Rightarrow>
               (case jsonBlock response of
                  Some body \<Rightarrow>
                    if body \<noteq> []
                    then (case jsonParse env (trim body) of
                            Some v \<Rightarrow> Inr v
                          | None \<Rightarrow> Inl (Exn PlainError BadFormat))
                    else Inl (Exn PlainError BadFormat)
                | None \<Rightarrow> Inl (Exn PlainError BadFormat)))"

definition generateChapterMindMap :: "Env \<Rightarrow> Outcome \<Rightarrow> Error + CacheValue" where
  "generateChapterMindMap env outcome =
     rethrow ChapterMindMapFailed
       (case generateContent outcome of
          Inl error \<Rightarrow> Inl error
        | Inr (mindMapJson, r) \<Rightarrow> parseJsonResponse env mindMapJson)"

definition AIService_generateCombinedMindMap :: "Env \<Rightarrow> Outcome \<Rightarrow> Error + CacheValue" where
  "AIService_generateCombinedMindMap env outcome =
     rethrow CombinedMindMapFailed
       (case generateContent outcome of
          Inl error \<Rightarrow> Inl error
        | Inr (mindMapJson, r) \<Rightarrow> parseJsonResponse env mindMapJson)"

section \<open>BookProcessingService: grouping\<close>

text \<open>\<open>Number.prototype.toString(radix)\<close> on a non-negative integer.\<close>

definition digitChar :: "nat \<Rightarrow> nat" where
  "digitChar d = (if d < 10 then 48 + d else 87 + d)"

function toStringRadix :: "nat \<Rightarrow> nat \<Rightarrow> ustring" where
  "toStringRadix radix n =
     (if n < radix \<or> radix < 2 then [digitChar n]
      else toStringRadix radix (n div radix) @ [digitChar (n mod radix)])"
  by pat_completeness auto
termination
  by (relation "measure (\<lambda>(radix, n). n)") auto

declare toStringRadix.simps [simp del]

text \<open>
  \<open>hashString\<close>: \<open>hash << 5\<close> and \<open>hash & hash\<close> convert to a signed 32-bit integer; the
  subtraction and the addition between them are exact.
\<close>

definition toInt32 :: "int \<Rightarrow> int" where
  "toInt32 x = (x + 2147483648) mod 4294967296 - 2147483648"

definition hashString :: "ustring \<Rightarrow> ustring" where
  "hashString str =
     toStringRadix 36
       (nat \<bar>foldl (\<lambda>hash char. toInt32 (toInt32 (hash * 32) - hash + int char)) 0 str\<bar>)"

text \<open>
  The chapters and groups of the source. The field \<open>id\<close> of a chapter is \<open>cid\<close> here, as
  \<open>id\<close> is the identity function of HOL.
\<close>

record ChapterData =
  cid :: ustring
  title :: ustring
  content :: ustring
  startPage :: "int option"
  endPage :: "int option"
  pageIndex :: "int option"

record Chapter = ChapterData +
  summary :: "ustring option"
  reasoning :: "ustring option"
  mindMap :: "MindElixirData option"
  isLoading :: "bool option"

record TempChapterGroup =
  tag :: "ustring option"
  chapters :: "ChapterData list"
  groupId :: ustring

text \<open>
  The fields of \<open>ChapterGroup\<close> that share a name with a field of \<open>Chapter\<close> or of
  \<open>TempChapterGroup\<close> carry the prefix \<open>cg\<close>.
\<close>

record ChapterGroup =
  cgGroupId :: ustring
  cgTag :: "ustring option"
  chapterIds :: "ustring list"
  chapterTitles :: "ustring list"
  cgSummary :: "ustring option"
  cgReasoning :: "ustring option"
  cgMindMap :: "MindElixirData option"
  cgIsLoading :: "bool option"

text \<open>\<open>chapterTags.get(chapter.id) || null\<close>: a missing and an empty tag are both \<open>null\<close>.\<close>

definition tagOf :: "(ustring \<rightharpoonup> ustring) \<Rightarrow> ChapterData \<Rightarrow> ustring option" where
  "tagOf chapterTags chapter =
     (case chapterTags (cid chapter) of
        None \<Rightarrow> None
      | Some t \<Rightarrow> if t = [] then None else Some t)"

definition sameTagChapters :: "ChapterData list \<Rightarrow> (ustring \<rightharpoonup> ustring) \<Rightarrow> ustring \<Rightarrow> ChapterData list" where
  "sameTagChapters chs chapterTags t = filter (\<lambda>ch. chapterTags (cid ch) = Some t) chs"

text \<open>
  The loop of \<open>groupChaptersByTag\<close>: \<open>rest\<close> are the chapters still to visit, \<open>groups\<close> and
  \<open>processedTags\<close> the two accumulators; \<open>chs\<close> is the whole list, which the filter reads.
\<close>

fun groupLoop ::
  "ChapterData list \<Rightarrow> (ustring \<rightharpoonup> ustring) \<Rightarrow> ChapterData list \<Rightarrow> TempChapterGroup list
   \<Rightarrow> ustring set \<Rightarrow> TempChapterGroup list" where
  "groupLoop chs chapterTags [] groups processedTags = groups"
| "groupLoop chs chapterTags (chapter # rest) groups processedTags =
     (case tagOf chapterTags chapter of
        None \<Rightarrow>
          groupLoop chs chapterTags rest
            (groups @ [\<lparr>tag = None, chapters = [chapter], groupId = title chapter\<rparr>]) processedTags
      | Some t \<Rightarrow>
          if t \<notin> processedTags
          then groupLoop chs chapterTags rest
                 (groups @ [\<lparr>tag = Some t, chapters = sameTagChapters chs chapterTags t,
                    groupId = hashString (join (u16 ''_'') (sort (map cid (sameTagChapters chs chapterTags t))))\<rparr>])
                 (insert t processedTags)
          else groupLoop chs chapterTags rest groups processedTags)"

definition groupChaptersByTag ::
  "ChapterData list \<Rightarrow> (ustring \<rightharpoonup> ustring) \<Rightarrow> TempChapterGroup list" where
  "groupChaptersByTag chs chapterTags = groupLoop chs chapterTags chs [] {}"

section \<open>BookProcessingService: the stages\<close>

text \<open>
  A stage takes the environment, the file name of the book and whether a stream callback
  was supplied; book type, output language, custom prompt and abort signal only shape the
  request, which the environment answers. The source's variable \<open>group\<close> is \<open>grp\<close> here.

  The closure state of a stage's \<open>handleStreamUpdate\<close>: the text coalesced so far, the
  time of the last forwarded update, and the updates forwarded to the caller's callback.
\<close>

record Throttle =
  current :: ustring
  currentReasoning :: ustring
  lastUpdateTime :: int
  emitted :: "StreamUpdate list"

definition newThrottle :: Throttle where
  "newThrottle = \<lparr>current = [], currentReasoning = [], lastUpdateTime = 0, emitted = []\<rparr>"

definition handleSummaryUpdate :: "Delta \<Rightarrow> Throttle \<Rightarrow> Throttle" where
  "handleSummaryUpdate data h =
     (let h1 = h\<lparr>current := current h @ contentChunk data,
                  currentReasoning :=
                    (if reasoningChunk data \<noteq> [] then currentReasoning h @ reasoningChunk data
                     else currentReasoning h)\<rparr>
      in if now data - lastUpdateTime h1 \<ge> 1000 \<or> lastUpdateTime h1 = 0
         then h1\<lparr>emitted := emitted h1 @ [SummaryUpdate (current h1) (Some (currentReasoning h1))],
                 lastUpdateTime := now data\<rparr>
         else h1)"

definition handleContentUpdate :: "Delta \<Rightarrow> Throttle \<Rightarrow> Throttle" where
  "handleContentUpdate data h =
     (let h1 = h\<lparr>current := current h @ contentChunk data\<rparr>
      in if now data - lastUpdateTime h1 \<ge> 1000 \<or> lastUpdateTime h1 = 0
         then h1\<lparr>emitted := emitted h1 @ [ContentUpdate (current h1)], lastUpdateTime := now data\<rparr>
         else h1)"

text \<open>One generation request: its outcome comes from the environment and is counted.\<close>

definition callAI :: "Env \<Rightarrow> Outcome io" where
  "callAI env = (\<lambda>w. (Inr (ai env (calls w)), w\<lparr>calls := calls w + 1\<rparr>))"

text \<open>\<open>if (onStreamUpdate) onStreamUpdate(...)\<close>, for each update of the list.\<close>

definition notify :: "bool \<Rightarrow> StreamUpdate list \<Rightarrow> unit io" where
  "notify onStreamUpdate us =
     (\<lambda>w. (Inr (), if onStreamUpdate then w\<lparr>updates := updates w @ us\<rparr> else w))"

definition optReasoning :: "ustring \<Rightarrow> ustring option" where
  "optReasoning r = (if r \<noteq> [] then Some r else None)"

definition summaryGroupResult :: "TempChapterGroup \<Rightarrow> Reply \<Rightarrow> ChapterGroup \<times> Chapter list" where
  "summaryGroupResult grp sr =
     (case sr of (s, r) \<Rightarrow>
       (\<lparr>cgGroupId = groupId grp, cgTag = tag grp,
         chapterIds = map cid (chapters grp), chapterTitles = map title (chapters grp),
         cgSummary = Some s, cgReasoning = optReasoning r, cgMindMap = None,
         cgIsLoading = Some False\<rparr>,
        map (\<lambda>chapter. \<lparr>cid = cid chapter, title = title chapter, content = content chapter,
                          startPage = startPage chapter, endPage = endPage chapter,
                          pageIndex = pageIndex chapter,
                          summary = Some s, reasoning = optReasoning r, mindMap = None,
                          isLoading = Some False\<rparr>) (chapters grp)))"

text \<open>
  The cache-miss branch of \<open>processSummaryGroup\<close>. The title of the request reads
  \<open>group.chapters[0].title\<close> when the tag is falsy, a \<open>TypeError\<close> on a group without
  chapters.
\<close>

definition generateSummary :: "Env \<Rightarrow> TempChapterGroup \<Rightarrow> ustring \<Rightarrow> bool \<Rightarrow> Reply io" where
  "generateSummary env grp fileName onStreamUpdate =
     (if (tag grp = None \<or> tag grp = Some []) \<and> chapters grp = []
      then throw (Exn TypeError NullAccess)
      else bindIO (callAI env) (\<lambda>outcome.
        case summarizeChapter outcome
               (if onStreamUpdate then Some handleSummaryUpdate else None) newThrottle of
          (result, h) \<Rightarrow>
            bindIO (notify onStreamUpdate (emitted h)) (\<lambda>u.
              case result of
                Inl error \<Rightarrow> throw error
              | Inr (s, r) \<Rightarrow>
                  bindIO (notify onStreamUpdate [SummaryUpdate s (Some r)]) (\<lambda>u.
                  bindIO (setCache env fileName Summary (VString s) (Some (groupId grp))) (\<lambda>u.
                    ret (s, r))))))"

definition processSummaryGroup ::
  "Env \<Rightarrow> TempChapterGroup \<Rightarrow> ustring \<Rightarrow> bool \<Rightarrow> (ChapterGroup \<times> Chapter list) io" where
  "processSummaryGroup env grp fileName onStreamUpdate =
     bindIO (getString env fileName Summary (Some (groupId grp))) (\<lambda>cached.
     bindIO (case cached of
               Some s \<Rightarrow>
                 if s \<noteq> []
                 then bindIO (notify onStreamUpdate [SummaryUpdate s None]) (\<lambda>u. ret (s, []))
                 else generateSummary env grp fileName onStreamUpdate
             | None \<Rightarrow> generateSummary env grp fileName onStreamUpdate)
       (\<lambda>sr. ret (summaryGroupResult grp sr)))"

definition mindMapGroupResult :: "TempChapterGroup \<Rightarrow> MindElixirData \<Rightarrow> ChapterGroup \<times> Chapter list" where
  "mindMapGroupResult grp m =
     (\<lparr>cgGroupId = groupId grp, cgTag = tag grp,
       chapterIds = map cid (chapters grp), chapterTitles = map title (chapters grp),
       cgSummary = None, cgReasoning = None, cgMindMap = Some m, cgIsLoading = Some False\<rparr>,
      map (\<lambda>chapter. \<lparr>cid = cid chapter, title = title chapter, content = content chapter,
                        startPage = startPage chapter, endPage = endPage chapter,
                        pageIndex = pageIndex chapter,
                        summary = None, reasoning = None, mindMap = Some m,
                        isLoading = Some False\<rparr>) (chapters grp))"

text \<open>
  \<open>processMindMapGroup\<close>: the generated payload is written to the cache first and its
  \<open>nodeData\<close> is tested afterwards; reading \<open>nodeData\<close> of \<open>null\<close> is a \<open>TypeError\<close>, of a
  value without that key it is \<open>undefined\<close>.
\<close>

definition processMindMapGroup ::
  "Env \<Rightarrow> TempChapterGroup \<Rightarrow> ustring \<Rightarrow> (ChapterGroup \<times> Chapter list) io" where
  "processMindMapGroup env grp fileName =
     bindIO (getMindMap env fileName Mindmap (Some (groupId grp))) (\<lambda>cached.
     bindIO (case cached of
               Some m \<Rightarrow> ret (VMindMap m)
             | None \<Rightarrow>
                 bindIO (callAI env) (\<lambda>outcome.
                   case generateChapterMindMap env outcome of
                     Inl error \<Rightarrow> throw error
                   | Inr v \<Rightarrow>
                       bindIO (setCache env fileName Mindmap v (Some (groupId grp))) (\<lambda>u. ret v)))
       (\<lambda>mindMap.
          case mindMap of
            VNull \<Rightarrow> throw (Exn TypeError NullAccess)
          | VMindMap m \<Rightarrow>
              (case nodeData m of
                 None \<Rightarrow> throw (Exn PlainError MindMapFailed)
               | Some n \<Rightarrow> ret (mindMapGroupResult grp m))
          | _ \<Rightarrow> throw (Exn PlainError MindMapFailed)))"

definition generateConnections :: "Env \<Rightarrow> ustring \<Rightarrow> bool \<Rightarrow> ustring io" where
  "generateConnections env fileName onStreamUpdate =
     bindIO (getString env fileName Connections None) (\<lambda>cached.
       if cached = None \<or> cached = Some []
       then bindIO (callAI env) (\<lambda>outcome.
              case analyzeConnections outcome
                     (if onStreamUpdate then Some handleContentUpdate else None) newThrottle of
                (result, h) \<Rightarrow>
                  bindIO (notify onStreamUpdate (emitted h)) (\<lambda>u.
                    case result of
                      Inl error \<Rightarrow> throw error
                    | Inr s \<Rightarrow>
                        bindIO (notify onStreamUpdate [ContentUpdate s]) (\<lambda>u.
                        bindIO (setCache env fileName Connections (VString s) None) (\<lambda>u.
                          ret s))))
       else bindIO (notify onStreamUpdate [ContentUpdate (the cached)]) (\<lambda>u. ret (the cached)))"

definition generateOverallSummary :: "Env \<Rightarrow> ustring \<Rightarrow> bool \<Rightarrow> ustring io" where
  "generateOverallSummary env fileName onStreamUpdate =
     bindIO (getString env fileName Overall_summary None) (\<lambda>cached.
       if cached = None \<or> cached = Some []
       then bindIO (callAI env) (\<lambda>outcome.
              case AIService_generateOverallSummary outcome
                     (if onStreamUpdate then Some handleContentUpdate else None) newThrottle of
                (result, h) \<Rightarrow>
                  bindIO (notify onStreamUpdate (emitted h)) (\<lambda>u.
                    case result of
                      Inl error \<Rightarrow> throw error
                    | Inr s \<Rightarrow>
                        bindIO (notify onStreamUpdate [ContentUpdate s]) (\<lambda>u.
                        bindIO (setCache env fileName Overall_summary (VString s) None) (\<lambda>u.
                          ret s))))
       else bindIO (notify onStreamUpdate [ContentUpdate (the cached)]) (\<lambda>u. ret (the cached)))"

definition generateCharacterRelationship :: "Env \<Rightarrow> ustring \<Rightarrow> ustring io" where
  "generateCharacterRelationship env fileName =
     bindIO (getString env fileName Character_relationship None) (\<lambda>cached.
       if cached = None \<or> cached = Some []
       then bindIO (callAI env) (\<lambda>outcome.
              case AIService_generateCharacterRelationship outcome of
                Inl error \<Rightarrow> throw error
              | Inr s \<Rightarrow>
                  bindIO (setCache env fileName Character_relationship (VString s) None) (\<lambda>u.
                    ret s))
       else ret (the cached))"

text \<open>
  \<open>mergeMindMaps\<close>: one child per processed chapter, numbered from 1, holding the children
  of the root of that chapter's mind map. The tag of the root is the two code units of the
  source's literal.
\<close>

definition chapterNode :: "nat \<times> Chapter \<Rightarrow> NodeObj" where
  "chapterNode ic =
     (case ic of (index, chapter) \<Rightarrow>
        NodeObj (title chapter) (u16 ''chapter_'' @ toStringRadix 10 (index + 1)) None
          (case mindMap chapter of
             None \<Rightarrow> []
           | Some m \<Rightarrow> (case nodeData m of None \<Rightarrow> [] | Some n \<Rightarrow> children n)))"

definition mergedMap :: "ustring \<Rightarrow> Chapter list \<Rightarrow> MindElixirData" where
  "mergedMap bookTitle chs =
     \<lparr>nodeData = Some (NodeObj bookTitle (u16 ''0'') (Some [[20840, 20070]])
                        (map chapterNode (enumerate 0 chs))),
      arrows = Some [],
      summaries = Some (concat (map (\<lambda>chapter.
                     case mindMap chapter of
                       None \<Rightarrow> []
                     | Some m \<Rightarrow> (case summaries m of None \<Rightarrow> [] | Some ss \<Rightarrow> ss)) chs))\<rparr>"

definition mergeMindMaps :: "Env \<Rightarrow> ustring \<Rightarrow> ustring \<Rightarrow> Chapter list \<Rightarrow> MindElixirData io" where
  "mergeMindMaps env fileName bookTitle chs =
     bindIO (getMindMap env fileName Merged_mindmap None) (\<lambda>cached.
       case cached of
         Some m \<Rightarrow> ret m
       | None \<Rightarrow>
           bindIO (setCache env fileName Merged_mindmap (VMindMap (mergedMap bookTitle chs)) None)
             (\<lambda>u. ret (mergedMap bookTitle chs)))"

definition generateCombinedMindMap :: "Env \<Rightarrow> ustring \<Rightarrow> CacheValue io" where
  "generateCombinedMindMap env fileName =
     bindIO (getMindMap env fileName Combined_mindmap None) (\<lambda>cached.
       case cached of
         Some m \<Rightarrow> ret (VMindMap m)
       | None \<Rightarrow>
           bindIO (callAI env) (\<lambda>outcome.
             case AIService_generateCombinedMindMap env outcome of
               Inl error \<Rightarrow> throw error
             | Inr v \<Rightarrow> bindIO (setCache env fileName Combined_mindmap v None) (\<lambda>u. ret v)))"

section \<open>The pipeline\<close>

text \<open>
  \<open>handleStartProcessing\<close> of the summary page, for a loaded book and a configured
  provider. Its result is the state it leaves in \<open>bookSummary\<close> or \<open>bookMindMap\<close> when it
  completes; its \<open>catch\<close> tells a cancellation (\<open>err.name === 'AbortError'\<close>) from a
  failure, whose message it reports.
\<close>

datatype BookType = Fiction | NonFiction

datatype Artifacts =
    BookSummary (groups: "ChapterGroup list") (connections: ustring)
      (characterRelationship: ustring) (overallSummary: ustring)
  | BookMindMap (groups: "ChapterGroup list") (combinedMindMap: CacheValue)

datatype RunEnd = Finished Artifacts | CancelledRun | Failed Message | NotStarted

definition plainGroupResult :: "TempChapterGroup \<Rightarrow> ChapterGroup \<times> Chapter list" where
  "plainGroupResult grp =
     (\<lparr>cgGroupId = groupId grp, cgTag = tag grp,
       chapterIds = map cid (chapters grp), chapterTitles = map title (chapters grp),
       cgSummary = None, cgReasoning = None, cgMindMap = None, cgIsLoading = Some False\<rparr>,
      map (\<lambda>chapter. \<lparr>cid = cid chapter, title = title chapter, content = content chapter,
                        startPage = startPage chapter, endPage = endPage chapter,
                        pageIndex = pageIndex chapter,
                        summary = None, reasoning = None, mindMap = None,
                        isLoading = Some False\<rparr>) (chapters grp))"

definition processGroup ::
  "Env \<Rightarrow> ProcessingMode \<Rightarrow> ustring \<Rightarrow> TempChapterGroup \<Rightarrow> (ChapterGroup \<times> Chapter list) io" where
  "processGroup env processingMode fileName grp =
     (case processingMode of
        SummaryMode \<Rightarrow> processSummaryGroup env grp fileName True
      | MindmapMode \<Rightarrow> processMindMapGroup env grp fileName
      | CombinedMindmapMode \<Rightarrow> ret (plainGroupResult grp))"

fun processGroups ::
  "Env \<Rightarrow> ProcessingMode \<Rightarrow> ustring \<Rightarrow> TempChapterGroup list \<Rightarrow> ChapterGroup list
   \<Rightarrow> Chapter list \<Rightarrow> (ChapterGroup list \<times> Chapter list) io" where
  "processGroups env processingMode fileName [] processedGroups processedChapters =
     ret (processedGroups, processedChapters)"
| "processGroups env processingMode fileName (grp # rest) processedGroups processedChapters =
     bindIO (processGroup env processingMode fileName grp) (\<lambda>result.
       processGroups env processingMode fileName rest
         (processedGroups @ [fst result]) (processedChapters @ snd result))"

definition runStages ::
  "Env \<Rightarrow> ProcessingMode \<Rightarrow> BookType \<Rightarrow> ustring \<Rightarrow> ustring \<Rightarrow> ChapterData list
   \<Rightarrow> (ustring \<rightharpoonup> ustring) \<Rightarrow> Artifacts io" where
  "runStages env processingMode bookType fileName bookTitle chs chapterTags =
     bindIO (processGroups env processingMode fileName (groupChaptersByTag chs chapterTags) [] [])
       (\<lambda>processed.
          case processingMode of
            SummaryMode \<Rightarrow>
              bindIO (generateConnections env fileName True) (\<lambda>conn.
              bindIO (if bookType \<noteq> NonFiction then generateCharacterRelationship env fileName
                      else ret []) (\<lambda>rel.
              bindIO (generateOverallSummary env fileName True) (\<lambda>overall.
                ret (BookSummary (fst processed) conn rel overall))))
          | MindmapMode \<Rightarrow>
              bindIO (mergeMindMaps env fileName bookTitle (snd processed)) (\<lambda>m.
                ret (BookMindMap (fst processed) (VMindMap m)))
          | CombinedMindmapMode \<Rightarrow>
              bindIO (generateCombinedMindMap env fileName) (\<lambda>v.
                ret (BookMindMap (fst processed) v)))"

definition handleStartProcessing ::
  "Env \<Rightarrow> ProcessingMode \<Rightarrow> BookType \<Rightarrow> ustring \<Rightarrow> ustring \<Rightarrow> ChapterData list
   \<Rightarrow> ustring set \<Rightarrow> (ustring \<rightharpoonup> ustring) \<Rightarrow> World \<Rightarrow> RunEnd \<times> World" where
  "handleStartProcessing env processingMode bookType fileName bookTitle extractedChapters
     selectedChapters chapterTags w =
     (if selectedChapters = {} then (NotStarted, w)
      else case runStages env processingMode bookType fileName bookTitle
                  (filter (\<lambda>chapter. cid chapter \<in> selectedChapters) extractedChapters)
                  chapterTags w of
             (Inl err, w') \<Rightarrow>
               (if name err = AbortError then CancelledRun else Failed (message err), w')
           | (Inr a, w') \<Rightarrow> (Finished a, w'))"

section \<open>The grouping, in the words of the specification\<close>

text \<open>
  The chapters are visited in input order; each visit contributes at most one group: an
  untagged chapter its own singleton group, named by its title; the first chapter of a
  tag the group of all chapters that carry this tag, named by the hash of their sorted,
  joined ids; a chapter whose tag an earlier chapter carries contributes nothing. A
  chapter is untagged when the assignment has no tag for it or the empty one, which the
  tag dialog never stores.
\<close>

definition singletonGroup :: "ChapterData \<Rightarrow> TempChapterGroup" where
  "singletonGroup chapter = \<lparr>tag = None, chapters = [chapter], groupId = title chapter\<rparr>"

definition taggedGroup :: "ChapterData list \<Rightarrow> (ustring \<rightharpoonup> ustring) \<Rightarrow> ustring \<Rightarrow> TempChapterGroup" where
  "taggedGroup chs chapterTags t =
     \<lparr>tag = Some t, chapters = filter (\<lambda>ch. tagOf chapterTags ch = Some t) chs,
      groupId = hashString (join (u16 ''_'')
                  (sort (map cid (filter (\<lambda>ch. tagOf chapterTags ch = Some t) chs))))\<rparr>"

definition contribution ::
  "ChapterData list \<Rightarrow> (ustring \<rightharpoonup> ustring) \<Rightarrow> nat \<Rightarrow> TempChapterGroup list" where
  "contribution chs chapterTags i =
     (case tagOf chapterTags (chs ! i) of
        None \<Rightarrow> [singletonGroup (chs ! i)]
      | Some t \<Rightarrow>
          if Some t \<in> tagOf chapterTags ` set (take i chs) then []
          else [taggedGroup chs chapterTags t])"

definition groupSpec :: "ChapterData list \<Rightarrow> (ustring \<rightharpoonup> ustring) \<Rightarrow> TempChapterGroup list" where
  "groupSpec chs chapterTags = concat (map (contribution chs chapterTags) [0..<length chs])"

section \<open>Example inputs\<close>

definition chapterIntro :: ChapterData where
  "chapterIntro = \<lparr>cid = u16 ''c1'', title = u16 ''Intro'', content = u16 ''one'',
      startPage = None, endPage = None, pageIndex = None\<rparr>"

definition chapterBody :: ChapterData where
  "chapterBody = \<lparr>cid = u16 ''c2'', title = u16 ''Body'', content = u16 ''two'',
      startPage = None, endPage = None, pageIndex = None\<rparr>"

definition chapterEnd :: ChapterData where
  "chapterEnd = \<lparr>cid = u16 ''c3'', title = u16 ''End'', content = u16 ''three'',
      startPage = None, endPage = None, pageIndex = None\<rparr>"

definition tagsAct1 :: "ustring \<rightharpoonup> ustring" where
  "tagsAct1 = map_of [(u16 ''c1'', u16 ''Act1''), (u16 ''c3'', u16 ''Act1'')]"

definition healthyEnv :: Env where
  "healthyEnv = \<lparr>ai = (\<lambda>n. SignalAborted), fails = (\<lambda>op. False), jsonParse = (\<lambda>s. None)\<rparr>"

definition emptyWorld :: World where
  "emptyWorld = \<lparr>items = [], calls = 0, updates = []\<rparr>"

section \<open>What a sweep of the book cache attempts\<close>

text \<open>
  The book-level kinds that \<open>clearBookCache\<close> deletes for a mode, in the order of the
  source, the suffix of the chapter-level keys it then looks for, and the keys it finds
  once the book-level keys are gone.
\<close>

definition bookLevelTypes :: "ProcessingMode \<Rightarrow> CacheKeyType list" where
  "bookLevelTypes processingMode =
     (case processingMode of
        SummaryMode \<Rightarrow>
          [Selected_chapters, Chapter_tags, Connections, Character_relationship, Overall_summary]
      | MindmapMode \<Rightarrow> [Selected_chapters, Chapter_tags, Mindmap_arrows, Merged_mindmap]
      | CombinedMindmapMode \<Rightarrow> [Selected_chapters, Chapter_tags, Combined_mindmap])"

definition chapterSuffix :: "ProcessingMode \<Rightarrow> ustring option" where
  "chapterSuffix processingMode =
     (case processingMode of
        SummaryMode \<Rightarrow> Some (u16 ''_summary'')
      | MindmapMode \<Rightarrow> Some (u16 ''_mindmap'')
      | CombinedMindmapMode \<Rightarrow> None)"

definition afterBookLevel ::
  "ustring \<Rightarrow> ProcessingMode \<Rightarrow> (ustring \<times> CacheValue) list \<Rightarrow> (ustring \<times> CacheValue) list" where
  "afterBookLevel fileName processingMode its =
     foldl (\<lambda>acc ty. AList.delete (generateKey fileName ty None) acc) its
       (bookLevelTypes processingMode)"

definition sweptChapterKeys ::
  "ustring \<Rightarrow> ProcessingMode \<Rightarrow> (ustring \<times> CacheValue) list \<Rightarrow> ustring list" where
  "sweptChapterKeys fileName processingMode its =
     (case chapterSuffix processingMode of
        None \<Rightarrow> []
      | Some suffix \<Rightarrow>
          chapterKeysOf (u16 ''book_'' @ cleanFilename fileName @ u16 ''_'') suffix
            (map fst (afterBookLevel fileName processingMode its)))"

section \<open>Comparing two runs\<close>

text \<open>
  The artifacts of a run with the reasoning of every group removed, and the relations
  between two states of the world that the replay of a run rests on: every non-empty text
  entry is kept, every mind-map entry is kept, the entries and the number of generation
  requests are the same.
\<close>

definition forgetGroupReasoning :: "ChapterGroup \<Rightarrow> ChapterGroup" where
  "forgetGroupReasoning g = g\<lparr>cgReasoning := None\<rparr>"

definition forgetChapterReasoning :: "Chapter \<Rightarrow> Chapter" where
  "forgetChapterReasoning c = c\<lparr>reasoning := None\<rparr>"

definition withoutReasoning :: "Artifacts \<Rightarrow> Artifacts" where
  "withoutReasoning a =
     (case a of
        BookSummary gs conn rel overall \<Rightarrow> BookSummary (map forgetGroupReasoning gs) conn rel overall
      | BookMindMap gs m \<Rightarrow> BookMindMap (map forgetGroupReasoning gs) m)"

definition keepsText :: "World \<Rightarrow> World \<Rightarrow> bool" where
  "keepsText w w' =
     (\<forall>k s. map_of (items w) k = Some (VString s) \<longrightarrow> s \<noteq> [] \<longrightarrow> map_of (items w') k = Some (VString s))"

definition keepsMaps :: "World \<Rightarrow> World \<Rightarrow> bool" where
  "keepsMaps w w' =
     (\<forall>k m. map_of (items w) k = Some (VMindMap m) \<longrightarrow> map_of (items w') k = Some (VMindMap m))"

definition sameStore :: "World \<Rightarrow> World \<Rightarrow> bool" where
  "sameStore w w' = (items w' = items w \<and> calls w' = calls w)"

text \<open>
  A provider that answers every request with the summary \<open>Sum\<close> and the reasoning \<open>Why\<close>,
  the artifacts of a summary-mode run of \<open>a.epub\<close> over the one chapter \<open>Intro\<close> with it,
  and the world that run leaves behind.
\<close>

definition answeringEnv :: Env where
  "answeringEnv =
     \<lparr>ai = (\<lambda>n. Answer [Delta (u16 ''Sum'') (u16 ''Why'') 5] Completed),
      fails = (\<lambda>op. False), jsonParse = (\<lambda>s. None)\<rparr>"

definition introArtifacts :: Artifacts where
  "introArtifacts =
     BookSummary
       [\<lparr>cgGroupId = u16 ''Intro'', cgTag = None, chapterIds = [u16 ''c1''],
         chapterTitles = [u16 ''Intro''], cgSummary = Some (u16 ''Sum''),
         cgReasoning = Some (u16 ''Why''), cgMindMap = None, cgIsLoading = Some False\<rparr>]
       (u16 ''Sum'') [] (u16 ''Sum'')"

definition cachedWorld :: World where
  "cachedWorld =
     \<lparr>items = [(u16 ''book_a_chapter_Intro_summary'', VString (u16 ''Sum'')),
               (u16 ''book_a_connections'', VString (u16 ''Sum'')),
               (u16 ''book_a_overall_summary'', VString (u16 ''Sum''))],
      calls = 3,
      updates = [SummaryUpdate (u16 ''Sum'') (Some (u16 ''Why'')),
                 SummaryUpdate (u16 ''Sum'') (Some (u16 ''Why'')),
                 ContentUpdate (u16 ''Sum''), ContentUpdate (u16 ''Sum''),
                 ContentUpdate (u16 ''Sum''), ContentUpdate (u16 ''Sum'')]\<rparr>"

text \<open>
  Further example inputs: the group of the chapter \<open>Intro\<close>, a mind map with a root and
  one leaf, a store that holds it under the three mind-map keys of \<open>a.epub\<close>, and
  environments whose provider returns a mind map, a map whose \<open>nodeData\<close> is \<open>null\<close>, a
  stream cancelled after one delta, an empty answer, and whose store rejects every read
  or every write.
\<close>

definition introGroup :: TempChapterGroup where
  "introGroup = \<lparr>tag = None, chapters = [chapterIntro], groupId = u16 ''Intro''\<rparr>"

definition exampleMap :: MindElixirData where
  "exampleMap =
     \<lparr>nodeData = Some (NodeObj (u16 ''Root'') (u16 ''r'') None [NodeObj (u16 ''Leaf'') (u16 ''l'') None []]),
      arrows = None, summaries = None\<rparr>"

definition mapWorld :: World where
  "mapWorld =
     \<lparr>items = [(u16 ''book_a_chapter_Intro_mindmap'', VMindMap exampleMap),
               (u16 ''book_a_merged_mindmap'', VMindMap exampleMap),
               (u16 ''book_a_combined_mindmap'', VMindMap exampleMap)],
      calls = 1, updates = []\<rparr>"

definition mapEnv :: Env where
  "mapEnv =
     \<lparr>ai = (\<lambda>n. Answer [Delta (u16 ''M'') [] 5] Completed),
      fails = (\<lambda>op. False), jsonParse = (\<lambda>s. Some (VMindMap exampleMap))\<rparr>"

definition nullRoot :: MindElixirData where
  "nullRoot = \<lparr>nodeData = None, arrows = None, summaries = None\<rparr>"

definition nullRootEnv :: Env where
  "nullRootEnv =
     \<lparr>ai = (\<lambda>n. Answer [Delta (u16 ''M'') [] 5] Completed),
      fails = (\<lambda>op. False), jsonParse = (\<lambda>s. Some (VMindMap nullRoot))\<rparr>"

definition cancellingEnv :: Env where
  "cancellingEnv =
     \<lparr>ai = (\<lambda>n. Answer [Delta (u16 ''Par'') [] 5] Cancelled),
      fails = (\<lambda>op. False), jsonParse = (\<lambda>s. None)\<rparr>"

definition emptyAnswerEnv :: Env where
  "emptyAnswerEnv =
     \<lparr>ai = (\<lambda>n. Answer [] Completed), fails = (\<lambda>op. False), jsonParse = (\<lambda>s. None)\<rparr>"

definition readFailingEnv :: Env where
  "readFailingEnv =
     \<lparr>ai = (\<lambda>n. Answer [Delta (u16 ''Sum'') (u16 ''Why'') 5] Completed),
      fails = (\<lambda>op. case op of GetItem k \<Rightarrow> True | _ \<Rightarrow> False), jsonParse = (\<lambda>s. None)\<rparr>"

definition writeFailingEnv :: Env where
  "writeFailingEnv =
     \<lparr>ai = (\<lambda>n. Answer [Delta (u16 ''Sum'') (u16 ''Why'') 5] Completed),
      fails = (\<lambda>op. case op of SetItem k \<Rightarrow> True | _ \<Rightarrow> False), jsonParse = (\<lambda>s. None)\<rparr>"

text \<open>
  The results of concrete runs: the first summary of \<open>Intro\<close> and the world after it, and
  the group and the processed chapters of a mind-map run over \<open>Intro\<close> and \<open>End\<close>, both
  tagged \<open>Act1\<close>.
\<close>

definition introResult :: "ChapterGroup \<times> Chapter list" where
  "introResult =
     (\<lparr>cgGroupId = u16 ''Intro'', cgTag = None, chapterIds = [u16 ''c1''],
       chapterTitles = [u16 ''Intro''], cgSummary = Some (u16 ''Sum''),
       cgReasoning = Some (u16 ''Why''), cgMindMap = None, cgIsLoading = Some False\<rparr>,
      [\<lparr>cid = u16 ''c1'', title = u16 ''Intro'', content = u16 ''one'',
      startPage = None, endPage = None, pageIndex = None,
        summary = Some (u16 ''Sum''), reasoning = Some (u16 ''Why''), mindMap = None,
        isLoading = Some False\<rparr>])"

definition summarizedWorld :: World where
  "summarizedWorld =
     \<lparr>items = [(u16 ''book_a_chapter_Intro_summary'', VString (u16 ''Sum''))],
      calls = 1,
      updates = [SummaryUpdate (u16 ''Sum'') (Some (u16 ''Why'')),
                 SummaryUpdate (u16 ''Sum'') (Some (u16 ''Why''))]\<rparr>"

definition act1Group :: ChapterGroup where
  "act1Group =
     \<lparr>cgGroupId = u16 ''1jcxy9'', cgTag = Some (u16 ''Act1''),
      chapterIds = [u16 ''c1'', u16 ''c3''], chapterTitles = [u16 ''Intro'', u16 ''End''],
      cgSummary = None, cgReasoning = None, cgMindMap = Some exampleMap,
      cgIsLoading = Some False\<rparr>"

definition processedIntro :: Chapter where
  "processedIntro =
     \<lparr>cid = u16 ''c1'', title = u16 ''Intro'', content = u16 ''one'',
      startPage = None, endPage = None, pageIndex = None, summary = None,
      reasoning = None, mindMap = Some exampleMap, isLoading = Some False\<rparr>"

definition processedEnd :: Chapter where
  "processedEnd =
     \<lparr>cid = u16 ''c3'', title = u16 ''End'', content = u16 ''three'',
      startPage = None, endPage = None, pageIndex = None, summary = None,
      reasoning = None, mindMap = Some exampleMap, isLoading = Some False\<rparr>"

text \<open>
  The merged map and the world of that mind-map run, and the group and the world of a
  whole-book run over \<open>Intro\<close>.
\<close>

definition act1Merged :: MindElixirData where
  "act1Merged =
     \<lparr>nodeData = Some (NodeObj (u16 ''T'') (u16 ''0'') (Some [[20840, 20070]])
        [NodeObj (u16 ''Intro'') (u16 ''chapter_1'') None [NodeObj (u16 ''Leaf'') (u16 ''l'') None []],
         NodeObj (u16 ''End'') (u16 ''chapter_2'') None [NodeObj (u16 ''Leaf'') (u16 ''l'') None []]]),
      arrows = Some [], summaries = Some []\<rparr>"

definition act1World :: World where
  "act1World =
     \<lparr>items = [(u16 ''book_a_chapter_1jcxy9_mindmap'', VMindMap exampleMap),
               (u16 ''book_a_merged_mindmap'', VMindMap act1Merged)],
      calls = 1, updates = []\<rparr>"

definition wholeBookGroup :: ChapterGroup where
  "wholeBookGroup =
     \<lparr>cgGroupId = u16 ''Intro'', cgTag = None, chapterIds = [u16 ''c1''],
      chapterTitles = [u16 ''Intro''], cgSummary = None, cgReasoning = None,
      cgMindMap = None, cgIsLoading = Some False\<rparr>"

definition wholeBookWorld :: World where
  "wholeBookWorld =
     \<lparr>items = [(u16 ''book_a_combined_mindmap'', VMindMap exampleMap)],
      calls = 1, updates = []\<rparr>"

section \<open>Grouping\<close>

lemma tagOf_Some_iff: "tagOf tags ch = Some t \<longleftrightarrow> (tags (cid ch) = Some t \<and> t \<noteq> [])"
  by (auto simp: tagOf_def split: option.splits)

lemma sameTagChapters_tagOf:
  "t \<noteq> [] \<Longrightarrow> sameTagChapters chs tags t = filter (\<lambda>ch. tagOf tags ch = Some t) chs"
  by (simp add: sameTagChapters_def tagOf_Some_iff)

text \<open>
  The invariant of the loop: \<open>pre\<close> are the chapters visited, \<open>processed\<close> the tags they
  carry, and the groups still to come are the contributions of the positions not yet
  visited.
\<close>

lemma groupLoop_spec:
  "chs = pre @ rest \<Longrightarrow> processed = {t. Some t \<in> tagOf tags ` set pre} \<Longrightarrow>
   groupLoop chs tags rest gs processed =
     gs @ concat (map (contribution chs tags) [length pre..<length chs])"
proof (induction rest arbitrary: pre gs processed)
  case Nil
  then show ?case by simp
next
  case (Cons c rest)
  have split: "chs = (pre @ [c]) @ rest" using Cons.prems(1) by simp
  have lt: "length pre < length chs" using Cons.prems(1) by simp
  have upt: "[length pre..<length chs] = length pre # [length (pre @ [c])..<length chs]"
    using upt_conv_Cons[OF lt] by simp
  have nth: "chs ! length pre = c" and tk: "take (length pre) chs = pre"
    using Cons.prems(1) by simp_all
  show ?case
  proof (cases "tagOf tags c")
    case None
    have proc: "processed = {t. Some t \<in> tagOf tags ` set (pre @ [c])}"
      using Cons.prems(2) None by auto
    show ?thesis
      using Cons.IH[OF split proc] None upt nth tk
      by (simp add: contribution_def singletonGroup_def)
  next
    case (Some t)
    then have tne: "t \<noteq> []" by (simp add: tagOf_Some_iff)
    show ?thesis
    proof (cases "t \<in> processed")
      case True
      have proc: "processed = {t. Some t \<in> tagOf tags ` set (pre @ [c])}"
        using Cons.prems(2) Some True by auto
      have seen: "Some t \<in> tagOf tags ` set pre" using True Cons.prems(2) by simp
      show ?thesis
        using Cons.IH[OF split proc] Some True upt nth tk seen
        by (simp add: contribution_def)
    next
      case False
      have proc: "insert t processed = {t. Some t \<in> tagOf tags ` set (pre @ [c])}"
        using Cons.prems(2) Some by auto
      have unseen: "Some t \<notin> tagOf tags ` set pre" using False Cons.prems(2) by simp
      show ?thesis
        using Cons.IH[OF split proc] Some False upt nth tk unseen tne
        by (simp add: contribution_def taggedGroup_def sameTagChapters_tagOf)
    qed
  qed
qed

lemma hashString_c1_c3: "hashString (u16 ''c1_c3'') = u16 ''1jcxy9''"
  apply (simp add: hashString_def u16_def toInt32_def)
  apply (simp add: toStringRadix.simps digitChar_def)
  done

text \<open>
  Claim C6. \<open>groupChaptersByTag\<close> visits the chapters in input order; an untagged chapter
  becomes a singleton group named by its own title at once; the first chapter of a tag
  yields the group of all chapters with that tag, wherever they stand, named by the hash
  of the sorted, joined member ids; later chapters of a tag already seen are skipped. The
  groups therefore stand in the order of the first occurrence of each tag or untagged
  chapter: the code computes exactly \<open>groupSpec\<close>.
\<close>

theorem groupChaptersByTag_refines_spec:
  "groupChaptersByTag chs chapterTags = groupSpec chs chapterTags"
  using groupLoop_spec[of chs "[]" chs _ chapterTags "[]"]
  by (simp add: groupChaptersByTag_def groupSpec_def)

theorem groupChaptersByTag_refines_spec_witness:
  "groupSpec [chapterEnd, chapterBody, chapterIntro] tagsAct1 =
     [\<lparr>tag = Some (u16 ''Act1''), chapters = [chapterEnd, chapterIntro], groupId = u16 ''1jcxy9''\<rparr>,
      \<lparr>tag = None, chapters = [chapterBody], groupId = u16 ''Body''\<rparr>]"
proof -
  have "groupChaptersByTag [chapterEnd, chapterBody, chapterIntro] tagsAct1 =
     [\<lparr>tag = Some (u16 ''Act1''), chapters = [chapterEnd, chapterIntro],
       groupId = hashString (u16 ''c1_c3'')\<rparr>,
      \<lparr>tag = None, chapters = [chapterBody], groupId = u16 ''Body''\<rparr>]"
    by (simp add: groupChaptersByTag_def tagOf_def tagsAct1_def sameTagChapters_def
          chapterEnd_def chapterBody_def chapterIntro_def u16_def)
  then show ?thesis
    using groupChaptersByTag_refines_spec[of "[chapterEnd, chapterBody, chapterIntro]" tagsAct1]
    by (simp add: hashString_c1_c3)
qed

section \<open>The key scheme\<close>

text \<open>
  Claim C2. Decoding a generated key should give back the sanitised book token, the kind
  and the entity id. The code does not: the separator \<open>_chapter_\<close> is itself an output of
  the sanitiser. The book-level key of kind \<open>overall_summary\<close> for the file
  \<open>my chapter 1.pdf\<close> is decoded as the chapter-level summary key of book \<open>my\<close> and
  chapter \<open>1_overall\<close>, and the summary key of chapter \<open>x_chapter_y\<close> of \<open>a.epub\<close> as
  chapter \<open>y\<close> of book \<open>a_chapter_x\<close>.
\<close>

theorem parseKey_misreads_generated_keys:
  "parseKey (generateKey (u16 ''my chapter 1.pdf'') Overall_summary None) =
     Some \<lparr>bookName = u16 ''my'', keyType = Summary, chapterId = Some (u16 ''1_overall'')\<rparr>
   \<and> parseKey (generateKey (u16 ''a.epub'') Summary (Some (u16 ''x_chapter_y''))) =
     Some \<lparr>bookName = u16 ''a_chapter_x'', keyType = Summary, chapterId = Some (u16 ''y'')\<rparr>"
  by (simp add: parseKey_def generateKey_def chapterMatch_def bookMatch_def groupThenType_def
      u16_def cleanFilename_def removeExtension_def isKept_def dotPlus_def isLineTerminator_def
      chapterTypes_def)

section \<open>Deleting from the cache\<close>

lemma removeChapterKeys_healthy:
  "\<forall>op. \<not> fails env op \<Longrightarrow> fst (removeChapterKeys env ks n w) = Inr (n + length ks)"
  by (induction ks arbitrary: n w) (simp_all add: ret_def removeItem_def)

lemma countDelete_healthy:
  "\<forall>op. \<not> fails env op \<Longrightarrow>
   countDelete env f ty n w =
     (Inr (n + 1), w\<lparr>items := AList.delete (generateKey f ty None) (items w)\<rparr>)"
  by (simp add: countDelete_def bindIO_def deleteCache_def removeItem_def ret_def)

lemma clearBookCache_healthy:
  assumes "\<forall>op. \<not> fails env op"
  shows "fst (clearBookCache env f mode w) =
     Inr (length (bookLevelTypes mode) + length (sweptChapterKeys f mode (items w)))"
proof (cases mode)
  case SummaryMode
  then show ?thesis
    using assms
    by (simp add: clearBookCache_def bindIO_def countDelete_healthy[OF assms] keys_def
        removeChapterKeys_healthy[OF assms] bookLevelTypes_def sweptChapterKeys_def
        chapterSuffix_def afterBookLevel_def)
next
  case MindmapMode
  then show ?thesis
    using assms
    by (simp add: clearBookCache_def bindIO_def countDelete_healthy[OF assms] keys_def
        removeChapterKeys_healthy[OF assms] bookLevelTypes_def sweptChapterKeys_def
        chapterSuffix_def afterBookLevel_def)
next
  case CombinedMindmapMode
  then show ?thesis
    using assms
    by (simp add: clearBookCache_def bindIO_def countDelete_healthy[OF assms]
        bookLevelTypes_def sweptChapterKeys_def chapterSuffix_def)
qed

text \<open>
  Claim C10. While the store works, \<open>deleteCache\<close> and \<open>deleteCacheByKey\<close> return \<open>true\<close>
  for every content of the store, whether the key is present or not, and every other key
  keeps its entry. The count of \<open>clearBookCache\<close> is therefore the number of book-level
  kinds of the mode, each counted as attempted, plus the chapter-level keys found
  afterwards: 5, 4 or 3 on a store that holds nothing of the book.
\<close>

theorem deletions_count_attempts:
  assumes "\<forall>op. \<not> fails env op"
  shows "deleteCache env f ty e w =
           (Inr True, w\<lparr>items := AList.delete (generateKey f ty e) (items w)\<rparr>)
       \<and> deleteCacheByKey env k w = (Inr True, w\<lparr>items := AList.delete k (items w)\<rparr>)
       \<and> (\<forall>k'. k' \<noteq> k \<longrightarrow> map_of (AList.delete k (items w)) k' = map_of (items w) k')
       \<and> fst (clearBookCache env f mode w) =
           Inr (length (bookLevelTypes mode) + length (sweptChapterKeys f mode (items w)))"
  using assms clearBookCache_healthy[OF assms]
  by (simp add: deleteCache_def deleteCacheByKey_def removeItem_def delete_conv)

theorem deletions_count_attempts_witness:
  "deleteCache healthyEnv (u16 ''a.epub'') Connections None emptyWorld = (Inr True, emptyWorld)
   \<and> deleteCacheByKey healthyEnv (u16 ''book_a_connections'') emptyWorld = (Inr True, emptyWorld)
   \<and> fst (clearBookCache healthyEnv (u16 ''a.epub'') SummaryMode emptyWorld) = Inr 5"
proof -
  have h: "\<forall>op. \<not> fails healthyEnv op" by (simp add: healthyEnv_def)
  show ?thesis
    using deletions_count_attempts[OF h, of "u16 ''a.epub''" Connections None emptyWorld
        "u16 ''book_a_connections''" SummaryMode]
    by (simp add: emptyWorld_def bookLevelTypes_def sweptChapterKeys_def chapterSuffix_def
        afterBookLevel_def chapterKeysOf_def)
qed

section \<open>The stages: hits, frames and successes\<close>

text \<open>
  For each stage three facts: on a hit it returns the cached value without a request; it
  never changes an entry of the shape it reads as a hit; and when it succeeds its key
  holds the value it returned.
\<close>

lemmas io_defs = bindIO_def ret_def throw_def getString_def getMindMap_def getItem_def
  setCache_def setItem_def notify_def callAI_def

lemma summarizeChapter_Inr:
  "summarizeChapter outcome cbk h = (Inr (s, r), h') \<Longrightarrow> s \<noteq> []"
  by (auto simp: summarizeChapter_def rethrow_def split: prod.splits sum.splits if_splits)

lemma analyzeConnections_Inr:
  "analyzeConnections outcome cbk h = (Inr s, h') \<Longrightarrow> s \<noteq> []"
  by (auto simp: analyzeConnections_def rethrow_def split: prod.splits sum.splits if_splits)

lemma AIService_generateOverallSummary_Inr:
  "AIService_generateOverallSummary outcome cbk h = (Inr s, h') \<Longrightarrow> s \<noteq> []"
  by (auto simp: AIService_generateOverallSummary_def rethrow_def split: prod.splits sum.splits if_splits)

lemma processSummaryGroup_hit:
  "\<not> fails env (GetItem (generateKey f Summary (Some (groupId grp)))) \<Longrightarrow>
   map_of (items w) (generateKey f Summary (Some (groupId grp))) = Some (VString s) \<Longrightarrow> s \<noteq> [] \<Longrightarrow>
   processSummaryGroup env grp f cb w =
     (Inr (summaryGroupResult grp (s, [])),
      if cb then w\<lparr>updates := updates w @ [SummaryUpdate s None]\<rparr> else w)"
  by (simp add: processSummaryGroup_def io_defs)

lemma generateSummary_frame:
  "generateSummary env grp f cb w = (r, w') \<Longrightarrow> map_of (items w) k = Some v \<Longrightarrow>
   k \<noteq> generateKey f Summary (Some (groupId grp)) \<Longrightarrow> map_of (items w') k = Some v"
  by (auto simp: generateSummary_def io_defs update_conv' split: prod.splits sum.splits if_splits)

lemma generateSummary_Inr:
  "generateSummary env grp f cb w = (Inr (s, r), w') \<Longrightarrow>
   s \<noteq> [] \<and> map_of (items w') (generateKey f Summary (Some (groupId grp))) = Some (VString s)"
  by (auto simp: generateSummary_def io_defs update_conv' dest: summarizeChapter_Inr
      split: prod.splits sum.splits if_splits)

lemma processSummaryGroup_frame:
  assumes "processSummaryGroup env grp f cb w = (r, w')"
    and "map_of (items w) k = Some (VString s)" and "s \<noteq> []"
  shows "map_of (items w') k = Some (VString s)"
  using assms
  by (auto simp: processSummaryGroup_def io_defs
      split: prod.splits sum.splits if_splits option.splits CacheValue.splits
      dest: generateSummary_frame)

lemma processSummaryGroup_Inr:
  assumes "processSummaryGroup env grp f cb w = (Inr x, w')"
  shows "\<exists>s r. s \<noteq> [] \<and> x = summaryGroupResult grp (s, r)
     \<and> map_of (items w') (generateKey f Summary (Some (groupId grp))) = Some (VString s)"
  using assms
  by (auto simp: processSummaryGroup_def io_defs
      split: prod.splits sum.splits if_splits option.splits CacheValue.splits
      dest: generateSummary_Inr)

lemma stripPrefix_Some: "stripPrefix p s = Some r \<Longrightarrow> s = p @ r"
  by (induction p s rule: stripPrefix.induct) (auto split: if_splits)

lemma splits_sound: "(pre, post) \<in> set (splits sep s) \<Longrightarrow> s = pre @ sep @ post"
proof (induction s arbitrary: pre)
  case Nil
  then show ?case by (auto split: if_splits)
next
  case (Cons c cs)
  then show ?case
    by (auto split: option.splits dest: stripPrefix_Some stripPrefix_Some[OF sym])
qed

lemma bodyUpToFence_head:
  assumes "bodyUpToFence s = Some body" and "body \<noteq> []"
  shows "\<not> isWhiteSpace (hd body)"
proof -
  obtain rest others where sp: "splits fence (dropWhile isWhiteSpace s) = (body, rest) # others"
    using assms(1) by (auto simp: bodyUpToFence_def split: list.splits prod.splits)
  then have "(body, rest) \<in> set (splits fence (dropWhile isWhiteSpace s))" by simp
  then have eq: "dropWhile isWhiteSpace s = body @ fence @ rest" by (rule splits_sound)
  then have "hd (dropWhile isWhiteSpace s) = hd body" using assms(2) by simp
  moreover have "dropWhile isWhiteSpace s \<noteq> []" using eq assms(2) by simp
  ultimately show ?thesis using hd_dropWhile[of isWhiteSpace s] by simp
qed

lemma trim_nonempty: "x \<noteq> [] \<Longrightarrow> \<not> isWhiteSpace (hd x) \<Longrightarrow> trim x \<noteq> []"
proof -
  assume ne: "x \<noteq> []" and hd: "\<not> isWhiteSpace (hd x)"
  then have d: "dropWhile isWhiteSpace x = x" by (cases x) simp_all
  have "hd x \<in> set (rev x)" using ne by simp
  then have "dropWhile isWhiteSpace (rev x) \<noteq> []"
    using hd by (auto simp: dropWhile_eq_Nil_conv)
  then show ?thesis by (simp add: trim_def d)
qed

lemma AIService_generateCharacterRelationship_Inr:
  "AIService_generateCharacterRelationship outcome = Inr s \<Longrightarrow> s \<noteq> []"
  by (auto simp: AIService_generateCharacterRelationship_def rethrow_def mermaidBlock_def
      split: prod.splits sum.splits if_splits option.splits list.splits
      dest: bodyUpToFence_head trim_nonempty)

lemma generateConnections_hit:
  "\<not> fails env (GetItem (generateKey f Connections None)) \<Longrightarrow>
   map_of (items w) (generateKey f Connections None) = Some (VString s) \<Longrightarrow> s \<noteq> [] \<Longrightarrow>
   generateConnections env f cb w =
     (Inr s, if cb then w\<lparr>updates := updates w @ [ContentUpdate s]\<rparr> else w)"
  by (simp add: generateConnections_def io_defs)

lemma generateConnections_frame:
  assumes "generateConnections env f cb w = (r, w')"
    and "map_of (items w) k = Some (VString s)" and "s \<noteq> []"
  shows "map_of (items w') k = Some (VString s)"
  using assms
  by (auto simp: generateConnections_def io_defs update_conv'
      split: prod.splits sum.splits if_splits option.splits CacheValue.splits)

lemma generateConnections_Inr:
  assumes "generateConnections env f cb w = (Inr s, w')"
  shows "s \<noteq> [] \<and> map_of (items w') (generateKey f Connections None) = Some (VString s)"
  using assms
  by (auto simp: generateConnections_def io_defs update_conv'
      split: prod.splits sum.splits if_splits option.splits CacheValue.splits
      dest: analyzeConnections_Inr)

lemma generateOverallSummary_hit:
  "\<not> fails env (GetItem (generateKey f Overall_summary None)) \<Longrightarrow>
   map_of (items w) (generateKey f Overall_summary None) = Some (VString s) \<Longrightarrow> s \<noteq> [] \<Longrightarrow>
   generateOverallSummary env f cb w =
     (Inr s, if cb then w\<lparr>updates := updates w @ [ContentUpdate s]\<rparr> else w)"
  by (simp add: generateOverallSummary_def io_defs)

lemma generateOverallSummary_frame:
  assumes "generateOverallSummary env f cb w = (r, w')"
    and "map_of (items w) k = Some (VString s)" and "s \<noteq> []"
  shows "map_of (items w') k = Some (VString s)"
  using assms
  by (auto simp: generateOverallSummary_def io_defs update_conv'
      split: prod.splits sum.splits if_splits option.splits CacheValue.splits)

lemma generateOverallSummary_Inr:
  assumes "generateOverallSummary env f cb w = (Inr s, w')"
  shows "s \<noteq> [] \<and> map_of (items w') (generateKey f Overall_summary None) = Some (VString s)"
  using assms
  by (auto simp: generateOverallSummary_def io_defs update_conv'
      split: prod.splits sum.splits if_splits option.splits CacheValue.splits
      dest: AIService_generateOverallSummary_Inr)

lemma generateCharacterRelationship_hit:
  "\<not> fails env (GetItem (generateKey f Character_relationship None)) \<Longrightarrow>
   map_of (items w) (generateKey f Character_relationship None) = Some (VString s) \<Longrightarrow> s \<noteq> [] \<Longrightarrow>
   generateCharacterRelationship env f w = (Inr s, w)"
  by (simp add: generateCharacterRelationship_def io_defs)

lemma generateCharacterRelationship_frame:
  assumes "generateCharacterRelationship env f w = (r, w')"
    and "map_of (items w) k = Some (VString s)" and "s \<noteq> []"
  shows "map_of (items w') k = Some (VString s)"
  using assms
  by (auto simp: generateCharacterRelationship_def io_defs update_conv'
      split: prod.splits sum.splits if_splits option.splits CacheValue.splits)

lemma generateCharacterRelationship_Inr:
  assumes "generateCharacterRelationship env f w = (Inr s, w')"
  shows "s \<noteq> [] \<and> map_of (items w') (generateKey f Character_relationship None) = Some (VString s)"
  using assms
  by (auto simp: generateCharacterRelationship_def io_defs update_conv'
      split: prod.splits sum.splits if_splits option.splits CacheValue.splits
      dest: AIService_generateCharacterRelationship_Inr)

lemma processMindMapGroup_hit:
  "\<not> fails env (GetItem (generateKey f Mindmap (Some (groupId grp)))) \<Longrightarrow>
   map_of (items w) (generateKey f Mindmap (Some (groupId grp))) = Some (VMindMap m) \<Longrightarrow>
   processMindMapGroup env grp f w =
     (case nodeData m of
        None \<Rightarrow> Inl (Exn PlainError MindMapFailed)
      | Some n \<Rightarrow> Inr (mindMapGroupResult grp m), w)"
  by (simp add: processMindMapGroup_def io_defs split: option.splits)

lemma processMindMapGroup_frame:
  assumes "processMindMapGroup env grp f w = (r, w')"
    and "map_of (items w) k = Some (VMindMap m)"
  shows "map_of (items w') k = Some (VMindMap m)"
  using assms
  by (auto simp: processMindMapGroup_def io_defs update_conv'
      split: prod.splits sum.splits if_splits option.splits CacheValue.splits)

lemma processMindMapGroup_Inr:
  assumes "processMindMapGroup env grp f w = (Inr x, w')"
  shows "\<exists>m. nodeData m \<noteq> None \<and> x = mindMapGroupResult grp m
     \<and> map_of (items w') (generateKey f Mindmap (Some (groupId grp))) = Some (VMindMap m)"
  using assms
  by (auto simp: processMindMapGroup_def io_defs update_conv'
      split: prod.splits sum.splits if_splits option.splits CacheValue.splits)

lemma mergeMindMaps_hit:
  "\<not> fails env (GetItem (generateKey f Merged_mindmap None)) \<Longrightarrow>
   map_of (items w) (generateKey f Merged_mindmap None) = Some (VMindMap m) \<Longrightarrow>
   mergeMindMaps env f bookTitle chs w = (Inr m, w)"
  by (simp add: mergeMindMaps_def io_defs)

lemma mergeMindMaps_Inr:
  assumes "mergeMindMaps env f bookTitle chs w = (Inr m, w')"
  shows "map_of (items w') (generateKey f Merged_mindmap None) = Some (VMindMap m)"
  using assms
  by (auto simp: mergeMindMaps_def io_defs update_conv'
      split: prod.splits sum.splits if_splits option.splits CacheValue.splits)

lemma generateCombinedMindMap_hit:
  "\<not> fails env (GetItem (generateKey f Combined_mindmap None)) \<Longrightarrow>
   map_of (items w) (generateKey f Combined_mindmap None) = Some (VMindMap m) \<Longrightarrow>
   generateCombinedMindMap env f w = (Inr (VMindMap m), w)"
  by (simp add: generateCombinedMindMap_def io_defs)

lemma generateCombinedMindMap_Inr:
  assumes "generateCombinedMindMap env f w = (Inr v, w')"
  shows "map_of (items w') (generateKey f Combined_mindmap None) = Some v
       \<or> (v = VNull \<and> map_of (items w') (generateKey f Combined_mindmap None) = Some VNull)"
  using assms
  by (auto simp: generateCombinedMindMap_def io_defs update_conv'
      split: prod.splits sum.splits if_splits option.splits CacheValue.splits)

section \<open>Replaying a run from the cache\<close>

lemma keepsText_trans: "keepsText a b \<Longrightarrow> keepsText b c \<Longrightarrow> keepsText a c"
  by (simp add: keepsText_def)

lemma keepsMaps_trans: "keepsMaps a b \<Longrightarrow> keepsMaps b c \<Longrightarrow> keepsMaps a c"
  by (simp add: keepsMaps_def)

lemma processGroups_acc:
  "processGroups env mode f gs pg pc w =
     (case processGroups env mode f gs [] [] w of
        (Inl e, w') \<Rightarrow> (Inl e, w')
      | (Inr (a, b), w') \<Rightarrow> (Inr (pg @ a, pc @ b), w'))"
proof (induction gs arbitrary: pg pc w)
  case Nil
  then show ?case by (simp add: ret_def)
next
  case (Cons g gs)
  show ?case
  proof (cases "processGroup env mode f g w")
    case (Pair r wa)
    show ?thesis
    proof (cases r)
      case (Inl e)
      with Pair show ?thesis by (simp add: bindIO_def)
    next
      case (Inr x)
      have 1: "processGroups env mode f (g # gs) pg pc w =
               processGroups env mode f gs (pg @ [fst x]) (pc @ snd x) wa"
        using Pair Inr by (simp add: bindIO_def)
      have 2: "processGroups env mode f (g # gs) [] [] w =
               processGroups env mode f gs [fst x] (snd x) wa"
        using Pair Inr by (simp add: bindIO_def)
      show ?thesis
        unfolding 1 2
        by (subst Cons.IH, subst (2) Cons.IH)
           (simp split: prod.splits sum.splits)
    qed
  qed
qed

lemma processGroups_Cons_Inr:
  assumes "processGroups env mode f (g # gs) [] [] w = (Inr (a, b), w')"
  obtains x wa a' b' where "processGroup env mode f g w = (Inr x, wa)"
    and "processGroups env mode f gs [] [] wa = (Inr (a', b'), w')"
    and "a = fst x # a'" and "b = snd x @ b'"
proof -
  obtain r wa where st: "processGroup env mode f g w = (r, wa)" by (cases "processGroup env mode f g w")
  show ?thesis
  proof (cases r)
    case (Inl e)
    with st assms show ?thesis by (simp add: bindIO_def)
  next
    case (Inr x)
    then have "processGroups env mode f gs [fst x] (snd x) wa = (Inr (a, b), w')"
      using st assms by (simp add: bindIO_def)
    then show ?thesis
      using that[OF st[unfolded Inr]]
      by (subst (asm) processGroups_acc) (auto split: prod.splits sum.splits)
  qed
qed

lemma processGroups_summary_frame:
  "processGroups env SummaryMode f gs pg pc w = (r, w') \<Longrightarrow> keepsText w w'"
proof (induction gs arbitrary: pg pc w)
  case Nil
  then show ?case by (simp add: ret_def keepsText_def)
next
  case (Cons g gs)
  obtain x wa where st: "processSummaryGroup env g f True w = (x, wa)"
    by (cases "processSummaryGroup env g f True w")
  have fr: "keepsText w wa"
    using processSummaryGroup_frame[OF st] by (simp add: keepsText_def)
  show ?case
  proof (cases x)
    case (Inl e)
    then show ?thesis using Cons.prems st fr by (simp add: bindIO_def processGroup_def)
  next
    case (Inr y)
    then have "processGroups env SummaryMode f gs (pg @ [fst y]) (pc @ snd y) wa = (r, w')"
      using Cons.prems st by (simp add: bindIO_def processGroup_def)
    from Cons.IH[OF this] fr show ?thesis by (rule keepsText_trans[rotated])
  qed
qed

lemma summaryGroupResult_forget:
  "summaryGroupResult g (s, []) =
     (forgetGroupReasoning (fst (summaryGroupResult g (s, r))),
      map forgetChapterReasoning (snd (summaryGroupResult g (s, r))))"
  by (simp add: summaryGroupResult_def forgetGroupReasoning_def forgetChapterReasoning_def
      optReasoning_def)

lemma processGroups_summary_replay:
  assumes "processGroups env1 SummaryMode f gs [] [] w = (Inr (a, b), w1)"
    and "keepsText w1 w2" and "\<forall>k. \<not> fails env2 (GetItem k)"
  shows "\<exists>us. processGroups env2 SummaryMode f gs [] [] w2 =
           (Inr (map forgetGroupReasoning a, map forgetChapterReasoning b),
            w2\<lparr>updates := updates w2 @ us\<rparr>)"
  using assms
proof (induction gs arbitrary: w a b w2)
  case Nil
  then show ?case by (auto simp: ret_def intro: exI[of _ "[]"])
next
  case (Cons g gs)
  from Cons.prems(1) obtain x wa a' b' where
    st: "processGroup env1 SummaryMode f g w = (Inr x, wa)"
    and rest: "processGroups env1 SummaryMode f gs [] [] wa = (Inr (a', b'), w1)"
    and a: "a = fst x # a'" and b: "b = snd x @ b'"
    by (rule processGroups_Cons_Inr)
  from st have st': "processSummaryGroup env1 g f True w = (Inr x, wa)"
    by (simp add: processGroup_def)
  from processSummaryGroup_Inr[OF st'] obtain s r where
    sne: "s \<noteq> []" and x: "x = summaryGroupResult g (s, r)"
    and k: "map_of (items wa) (generateKey f Summary (Some (groupId g))) = Some (VString s)"
    by blast
  have "keepsText wa w1" using processGroups_summary_frame[OF rest] .
  then have "keepsText wa w2" using Cons.prems(2) by (rule keepsText_trans)
  then have k2: "map_of (items w2) (generateKey f Summary (Some (groupId g))) = Some (VString s)"
    using k sne by (simp add: keepsText_def)
  define w2a where "w2a = w2\<lparr>updates := updates w2 @ [SummaryUpdate s None]\<rparr>"
  have hit: "processSummaryGroup env2 g f True w2 = (Inr (summaryGroupResult g (s, [])), w2a)"
    using processSummaryGroup_hit[OF _ k2 sne, of env2 True] Cons.prems(3)
    by (simp add: w2a_def)
  have "keepsText w1 w2a" using Cons.prems(2) by (simp add: keepsText_def w2a_def)
  from Cons.IH[OF rest this Cons.prems(3)] obtain us where
    ih: "processGroups env2 SummaryMode f gs [] [] w2a =
           (Inr (map forgetGroupReasoning a', map forgetChapterReasoning b'),
            w2a\<lparr>updates := updates w2a @ us\<rparr>)" by blast
  have fx: "forgetGroupReasoning (fst x) = fst (summaryGroupResult g (s, []))"
    and sx: "map forgetChapterReasoning (snd x) = snd (summaryGroupResult g (s, []))"
    using x by (simp_all add: summaryGroupResult_forget[of g s r])
  have step: "processGroups env2 SummaryMode f (g # gs) [] [] w2 =
          processGroups env2 SummaryMode f gs [fst (summaryGroupResult g (s, []))]
            (snd (summaryGroupResult g (s, []))) w2a"
    using hit by (simp add: bindIO_def processGroup_def)
  have "processGroups env2 SummaryMode f (g # gs) [] [] w2 =
          (Inr (map forgetGroupReasoning a, map forgetChapterReasoning b),
           w2\<lparr>updates := updates w2 @ (SummaryUpdate s None # us)\<rparr>)"
    unfolding step
    by (subst processGroups_acc) (simp add: ih[unfolded w2a_def] a b fx sx w2a_def)
  then show ?case by blast
qed

lemma bindIO_Inr:
  assumes "bindIO m k w = (Inr y, w')"
  obtains x wm where "m w = (Inr x, wm)" and "k x wm = (Inr y, w')"
  using assms by (auto simp: bindIO_def split: prod.splits sum.splits)

lemma forget_mindMapGroupResult:
  "forgetGroupReasoning (fst (mindMapGroupResult g m)) = fst (mindMapGroupResult g m)"
  by (simp add: forgetGroupReasoning_def mindMapGroupResult_def)

lemma forget_plainGroupResult:
  "forgetGroupReasoning (fst (plainGroupResult g)) = fst (plainGroupResult g)"
  by (simp add: forgetGroupReasoning_def plainGroupResult_def)

lemma processGroups_mindmap_frame:
  "processGroups env MindmapMode f gs pg pc w = (r, w') \<Longrightarrow> keepsMaps w w'"
proof (induction gs arbitrary: pg pc w)
  case Nil
  then show ?case by (simp add: ret_def keepsMaps_def)
next
  case (Cons g gs)
  obtain x wa where st: "processMindMapGroup env g f w = (x, wa)"
    by (cases "processMindMapGroup env g f w")
  have fr: "keepsMaps w wa"
    using processMindMapGroup_frame[OF st] by (simp add: keepsMaps_def)
  show ?case
  proof (cases x)
    case (Inl e)
    then show ?thesis using Cons.prems st fr by (simp add: bindIO_def processGroup_def)
  next
    case (Inr y)
    then have "processGroups env MindmapMode f gs (pg @ [fst y]) (pc @ snd y) wa = (r, w')"
      using Cons.prems st by (simp add: bindIO_def processGroup_def)
    from Cons.IH[OF this] fr show ?thesis by (rule keepsMaps_trans[rotated])
  qed
qed

lemma processGroups_mindmap_replay:
  assumes "processGroups env1 MindmapMode f gs [] [] w = (Inr (a, b), w1)"
    and "keepsMaps w1 w2" and "\<forall>k. \<not> fails env2 (GetItem k)"
  shows "processGroups env2 MindmapMode f gs [] [] w2 = (Inr (map forgetGroupReasoning a, b), w2)"
  using assms
proof (induction gs arbitrary: w a b)
  case Nil
  then show ?case by (auto simp: ret_def)
next
  case (Cons g gs)
  from Cons.prems(1) obtain x wa a' b' where
    st: "processGroup env1 MindmapMode f g w = (Inr x, wa)"
    and rest: "processGroups env1 MindmapMode f gs [] [] wa = (Inr (a', b'), w1)"
    and a: "a = fst x # a'" and b: "b = snd x @ b'"
    by (rule processGroups_Cons_Inr)
  from st have st': "processMindMapGroup env1 g f w = (Inr x, wa)"
    by (simp add: processGroup_def)
  from processMindMapGroup_Inr[OF st'] obtain m where
    nd: "nodeData m \<noteq> None" and x: "x = mindMapGroupResult g m"
    and k: "map_of (items wa) (generateKey f Mindmap (Some (groupId g))) = Some (VMindMap m)"
    by blast
  have "keepsMaps wa w1" using processGroups_mindmap_frame[OF rest] .
  then have "keepsMaps wa w2" using Cons.prems(2) by (rule keepsMaps_trans)
  then have k2: "map_of (items w2) (generateKey f Mindmap (Some (groupId g))) = Some (VMindMap m)"
    using k by (simp add: keepsMaps_def)
  have hit: "processMindMapGroup env2 g f w2 = (Inr x, w2)"
    using processMindMapGroup_hit[OF _ k2, of env2] Cons.prems(3) nd x by auto
  have ih: "processGroups env2 MindmapMode f gs [] [] w2 = (Inr (map forgetGroupReasoning a', b'), w2)"
    using Cons.IH[OF rest Cons.prems(2) Cons.prems(3)] .
  have step: "processGroups env2 MindmapMode f (g # gs) [] [] w2 =
          processGroups env2 MindmapMode f gs [fst x] (snd x) w2"
    using hit by (simp add: bindIO_def processGroup_def)
  show ?case
    unfolding step
    by (subst processGroups_acc) (simp add: ih a b x forget_mindMapGroupResult)
qed

lemma processGroups_combined:
  "processGroups env CombinedMindmapMode f gs pg pc w =
     (Inr (pg @ map (\<lambda>g. fst (plainGroupResult g)) gs,
           pc @ concat (map (\<lambda>g. snd (plainGroupResult g)) gs)), w)"
  by (induction gs arbitrary: pg pc) (simp_all add: ret_def bindIO_def processGroup_def)

lemma summary_mode_replay:
  assumes run1: "runStages env1 SummaryMode bt f bookTitle chs tags w = (Inr a, w1)"
    and reads: "\<forall>k. \<not> fails env2 (GetItem k)"
  shows "\<exists>w2. runStages env2 SummaryMode bt f bookTitle chs tags w1 = (Inr (withoutReasoning a), w2)
     \<and> sameStore w1 w2"
proof -
  let ?gs = "groupChaptersByTag chs tags"
  have run1': "bindIO (processGroups env1 SummaryMode f ?gs [] []) (\<lambda>p.
              bindIO (generateConnections env1 f True) (\<lambda>conn.
              bindIO (if bt \<noteq> NonFiction then generateCharacterRelationship env1 f else ret []) (\<lambda>rel.
              bindIO (generateOverallSummary env1 f True) (\<lambda>overall.
                ret (BookSummary (fst p) conn rel overall))))) w = (Inr a, w1)"
    using run1 by (simp add: runStages_def)
  from run1' obtain p wa where
    g1: "processGroups env1 SummaryMode f ?gs [] [] w = (Inr p, wa)"
    and r1: "bindIO (generateConnections env1 f True) (\<lambda>conn.
              bindIO (if bt \<noteq> NonFiction then generateCharacterRelationship env1 f else ret []) (\<lambda>rel.
              bindIO (generateOverallSummary env1 f True) (\<lambda>overall.
                ret (BookSummary (fst p) conn rel overall)))) wa = (Inr a, w1)"
    by (rule bindIO_Inr)
  from r1 obtain conn wb where
    c1: "generateConnections env1 f True wa = (Inr conn, wb)"
    and r2: "bindIO (if bt \<noteq> NonFiction then generateCharacterRelationship env1 f else ret []) (\<lambda>rel.
              bindIO (generateOverallSummary env1 f True) (\<lambda>overall.
                ret (BookSummary (fst p) conn rel overall))) wb = (Inr a, w1)"
    by (rule bindIO_Inr)
  from r2 obtain rel wc where
    h1: "(if bt \<noteq> NonFiction then generateCharacterRelationship env1 f else ret []) wb = (Inr rel, wc)"
    and r3: "bindIO (generateOverallSummary env1 f True) (\<lambda>overall.
                ret (BookSummary (fst p) conn rel overall)) wc = (Inr a, w1)"
    by (rule bindIO_Inr)
  from r3 obtain overall wd where
    o0: "generateOverallSummary env1 f True wc = (Inr overall, wd)"
    and r4: "ret (BookSummary (fst p) conn rel overall) wd = (Inr a, w1)"
    by (rule bindIO_Inr)
  from r4 have a: "a = BookSummary (fst p) conn rel overall" and wd: "wd = w1"
    by (simp_all add: ret_def)
  note o1 = o0[unfolded wd]
  have f_ab: "keepsText wa wb"
    using generateConnections_frame[OF c1] by (simp add: keepsText_def)
  have f_bc: "keepsText wb wc"
  proof (cases "bt \<noteq> NonFiction")
    case True
    then show ?thesis
      using generateCharacterRelationship_frame[of env1 f wb "Inr rel" wc] h1
      by (simp add: keepsText_def)
  next
    case False
    then show ?thesis using h1 by (simp add: ret_def keepsText_def)
  qed
  have f_c1: "keepsText wc w1"
    using generateOverallSummary_frame[OF o1] by (simp add: keepsText_def)
  have f_b1: "keepsText wb w1" using f_bc f_c1 by (rule keepsText_trans)
  have f_a1: "keepsText wa w1" using f_ab f_b1 by (rule keepsText_trans)
  obtain gps cps where p: "p = (gps, cps)" by (cases p)
  from processGroups_summary_replay[OF g1[unfolded p] f_a1 reads] obtain us where
    g2: "processGroups env2 SummaryMode f ?gs [] [] w1 =
           (Inr (map forgetGroupReasoning gps, map forgetChapterReasoning cps),
            w1\<lparr>updates := updates w1 @ us\<rparr>)" by blast
  define v1 where "v1 = w1\<lparr>updates := updates w1 @ us\<rparr>"
  have s1: "sameStore w1 v1" by (simp add: sameStore_def v1_def)
  have kc: "conn \<noteq> [] \<and> map_of (items v1) (generateKey f Connections None) = Some (VString conn)"
    using generateConnections_Inr[OF c1] f_b1 by (simp add: keepsText_def v1_def)
  define v2 where "v2 = v1\<lparr>updates := updates v1 @ [ContentUpdate conn]\<rparr>"
  have c2: "generateConnections env2 f True v1 = (Inr conn, v2)"
    using generateConnections_hit[of env2 f v1 conn True] kc reads by (simp add: v2_def)
  have h2: "(if bt \<noteq> NonFiction then generateCharacterRelationship env2 f else ret []) v2 = (Inr rel, v2)"
  proof (cases "bt \<noteq> NonFiction")
    case True
    then have "generateCharacterRelationship env1 f wb = (Inr rel, wc)" using h1 by simp
    from generateCharacterRelationship_Inr[OF this] f_c1
    have "rel \<noteq> [] \<and> map_of (items v2) (generateKey f Character_relationship None) = Some (VString rel)"
      by (simp add: keepsText_def v1_def v2_def)
    then show ?thesis
      using generateCharacterRelationship_hit[of env2 f v2 rel] reads True by simp
  next
    case False
    then show ?thesis using h1 by (simp add: ret_def)
  qed
  have ko: "overall \<noteq> [] \<and> map_of (items v2) (generateKey f Overall_summary None) = Some (VString overall)"
    using generateOverallSummary_Inr[OF o1] by (simp add: v1_def v2_def)
  define v3 where "v3 = v2\<lparr>updates := updates v2 @ [ContentUpdate overall]\<rparr>"
  have o2: "generateOverallSummary env2 f True v2 = (Inr overall, v3)"
    using generateOverallSummary_hit[of env2 f v2 overall True] ko reads by (simp add: v3_def)
  have "runStages env2 SummaryMode bt f bookTitle chs tags w1 = (Inr (withoutReasoning a), v3)"
  proof (cases "bt \<noteq> NonFiction")
    case True
    then show ?thesis
      using g2[folded v1_def] c2 h2 o2
      by (simp add: runStages_def bindIO_def ret_def a p withoutReasoning_def)
  next
    case False
    then show ?thesis
      using g2[folded v1_def] c2 h2 o2
      by (simp add: runStages_def bindIO_def ret_def a p withoutReasoning_def)
  qed
  moreover have "sameStore w1 v3" by (simp add: sameStore_def v1_def v2_def v3_def)
  ultimately show ?thesis by blast
qed

lemma mergeMindMaps_frame:
  assumes "mergeMindMaps env f bookTitle chs w = (r, w')"
    and "map_of (items w) k = Some (VMindMap m)"
  shows "map_of (items w') k = Some (VMindMap m)"
  using assms
  by (auto simp: mergeMindMaps_def io_defs update_conv'
      split: prod.splits sum.splits if_splits option.splits CacheValue.splits)

lemma mindmap_mode_replay:
  assumes run1: "runStages env1 MindmapMode bt f bookTitle chs tags w = (Inr a, w1)"
    and reads: "\<forall>k. \<not> fails env2 (GetItem k)"
  shows "runStages env2 MindmapMode bt f bookTitle chs tags w1 = (Inr (withoutReasoning a), w1)"
proof -
  let ?gs = "groupChaptersByTag chs tags"
  have run1': "bindIO (processGroups env1 MindmapMode f ?gs [] []) (\<lambda>p.
              bindIO (mergeMindMaps env1 f bookTitle (snd p)) (\<lambda>m.
                ret (BookMindMap (fst p) (VMindMap m)))) w = (Inr a, w1)"
    using run1 by (simp add: runStages_def)
  from run1' obtain p wa where
    g1: "processGroups env1 MindmapMode f ?gs [] [] w = (Inr p, wa)"
    and r1: "bindIO (mergeMindMaps env1 f bookTitle (snd p)) (\<lambda>m.
                ret (BookMindMap (fst p) (VMindMap m))) wa = (Inr a, w1)"
    by (rule bindIO_Inr)
  from r1 obtain m wb where
    m0: "mergeMindMaps env1 f bookTitle (snd p) wa = (Inr m, wb)"
    and r2: "ret (BookMindMap (fst p) (VMindMap m)) wb = (Inr a, w1)"
    by (rule bindIO_Inr)
  from r2 have a: "a = BookMindMap (fst p) (VMindMap m)" and wb: "wb = w1"
    by (simp_all add: ret_def)
  note m1 = m0[unfolded wb]
  have fr: "keepsMaps wa w1"
    using mergeMindMaps_frame[OF m1] by (simp add: keepsMaps_def)
  obtain gps cps where p: "p = (gps, cps)" by (cases p)
  have g2: "processGroups env2 MindmapMode f ?gs [] [] w1 = (Inr (map forgetGroupReasoning gps, cps), w1)"
    using processGroups_mindmap_replay[OF g1[unfolded p] fr reads] .
  have m2: "mergeMindMaps env2 f bookTitle cps w1 = (Inr m, w1)"
    using mergeMindMaps_hit[of env2 f w1 m bookTitle cps] mergeMindMaps_Inr[OF m1] reads by simp
  show ?thesis
    using g2 m2 by (simp add: runStages_def bindIO_def ret_def a p withoutReasoning_def)
qed

lemma bindIO_processGroups_combined:
  "bindIO (processGroups env CombinedMindmapMode f gs [] []) k w =
     k (map (\<lambda>g. fst (plainGroupResult g)) gs, concat (map (\<lambda>g. snd (plainGroupResult g)) gs)) w"
  by (simp add: bindIO_def processGroups_combined)

lemma combined_mode_replay:
  assumes run1: "runStages env1 CombinedMindmapMode bt f bookTitle chs tags w = (Inr a, w1)"
    and reads: "\<forall>k. \<not> fails env2 (GetItem k)"
    and shape: "\<exists>m. combinedMindMap a = VMindMap m"
  shows "runStages env2 CombinedMindmapMode bt f bookTitle chs tags w1 = (Inr (withoutReasoning a), w1)"
proof -
  let ?gs = "groupChaptersByTag chs tags"
  let ?pg = "map (\<lambda>g. fst (plainGroupResult g)) ?gs"
  have run1': "bindIO (generateCombinedMindMap env1 f) (\<lambda>v. ret (BookMindMap ?pg v)) w = (Inr a, w1)"
    using run1 by (simp add: runStages_def bindIO_processGroups_combined)
  from run1' obtain v wb where
    c0: "generateCombinedMindMap env1 f w = (Inr v, wb)"
    and r2: "ret (BookMindMap ?pg v) wb = (Inr a, w1)"
    by (rule bindIO_Inr)
  from r2 have a: "a = BookMindMap ?pg v" and wb: "wb = w1"
    by (simp_all add: ret_def)
  note c1 = c0[unfolded wb]
  from shape a obtain m where v: "v = VMindMap m" by auto
  have k: "map_of (items w1) (generateKey f Combined_mindmap None) = Some (VMindMap m)"
    using generateCombinedMindMap_Inr[OF c1] v by simp
  have c2: "generateCombinedMindMap env2 f w1 = (Inr (VMindMap m), w1)"
    using generateCombinedMindMap_hit[of env2 f w1 m] k reads by simp
  have id: "map forgetGroupReasoning ?pg = ?pg"
    by (simp add: forget_plainGroupResult)
  have "runStages env2 CombinedMindmapMode bt f bookTitle chs tags w1 =
          bindIO (generateCombinedMindMap env2 f) (\<lambda>v. ret (BookMindMap ?pg v)) w1"
    by (simp add: runStages_def bindIO_processGroups_combined)
  also have "\<dots> = (Inr (BookMindMap ?pg (VMindMap m)), w1)"
    using c2 by (simp add: bindIO_def ret_def)
  finally show ?thesis
    using id by (simp add: a v withoutReasoning_def)
qed

text \<open>Unfolding sets for running the model on concrete inputs.\<close>

lemmas key_defs = generateKey_def cleanFilename_def removeExtension_def isKept_def u16_def

lemmas ai_defs = summarizeChapter_def analyzeConnections_def AIService_generateOverallSummary_def
  AIService_generateCharacterRelationship_def generateChapterMindMap_def
  AIService_generateCombinedMindMap_def parseJsonResponse_def
  request_def generateContent_def generateContentStream_def rethrow_def trim_def isWhiteSpace_def
  handleSummaryUpdate_def handleContentUpdate_def newThrottle_def

lemmas stage_defs = processSummaryGroup_def generateSummary_def summaryGroupResult_def
  optReasoning_def generateConnections_def generateOverallSummary_def
  generateCharacterRelationship_def processMindMapGroup_def mindMapGroupResult_def
  mergeMindMaps_def mergedMap_def chapterNode_def generateCombinedMindMap_def

lemmas run_defs = handleStartProcessing_def runStages_def groupChaptersByTag_def tagOf_def
  sameTagChapters_def processGroup_def plainGroupResult_def

lemmas hash_defs = hashString_def toInt32_def toStringRadix.simps digitChar_def

lemma intro_first_run:
  "handleStartProcessing answeringEnv SummaryMode NonFiction (u16 ''a.epub'') (u16 ''T'')
     [chapterIntro] {u16 ''c1''} Map.empty emptyWorld = (Finished introArtifacts, cachedWorld)"
  by (simp add: run_defs stage_defs ai_defs io_defs key_defs answeringEnv_def emptyWorld_def
      chapterIntro_def introArtifacts_def cachedWorld_def)

lemma act1_first_run:
  "handleStartProcessing mapEnv MindmapMode NonFiction (u16 ''a.epub'') (u16 ''T'')
     [chapterIntro, chapterEnd] {u16 ''c1'', u16 ''c3''} tagsAct1 emptyWorld =
     (Finished (BookMindMap [act1Group] (VMindMap act1Merged)), act1World)"
  by (simp add: run_defs stage_defs ai_defs io_defs key_defs hash_defs mapEnv_def
      exampleMap_def emptyWorld_def chapterIntro_def chapterEnd_def tagsAct1_def
      act1Group_def act1Merged_def act1World_def)

lemma wholeBook_first_run:
  "handleStartProcessing mapEnv CombinedMindmapMode NonFiction (u16 ''a.epub'') (u16 ''T'')
     [chapterIntro] {u16 ''c1''} Map.empty emptyWorld =
     (Finished (BookMindMap [wholeBookGroup] (VMindMap exampleMap)), wholeBookWorld)"
  by (simp add: run_defs stage_defs ai_defs io_defs key_defs mapEnv_def exampleMap_def
      emptyWorld_def chapterIntro_def wholeBookGroup_def wholeBookWorld_def
      processGroups_combined)

text \<open>
  Claim C1, as amended. When a run of the pipeline completes, a second run with the same
  book, chapters, tags and mode on the store it left, the store answering its reads,
  makes no generation request, whatever the provider would answer, and leaves the store
  as it is: every stage finds its value in the cache. It returns the artifacts of the
  first run except for the reasoning of the groups, which is absent. In whole-book mode
  this is stated for a first run whose map is an object with a \<open>nodeData\<close> key.
\<close>

theorem second_run_is_served_from_cache:
  assumes run1: "handleStartProcessing env1 mode bt f bookTitle extracted selected tags w = (Finished a, w1)"
    and reads: "\<forall>k. \<not> fails env2 (GetItem k)"
    and shape: "mode = CombinedMindmapMode \<longrightarrow> (\<exists>m. combinedMindMap a = VMindMap m)"
  shows "\<exists>w2. handleStartProcessing env2 mode bt f bookTitle extracted selected tags w1 =
               (Finished (withoutReasoning a), w2)
             \<and> items w2 = items w1 \<and> calls w2 = calls w1"
proof -
  let ?chs = "filter (\<lambda>chapter. cid chapter \<in> selected) extracted"
  from run1 have sel: "selected \<noteq> {}"
    by (auto simp: handleStartProcessing_def)
  from run1 sel have rs: "runStages env1 mode bt f bookTitle ?chs tags w = (Inr a, w1)"
    by (auto simp: handleStartProcessing_def split: prod.splits sum.splits if_splits)
  have "\<exists>w2. runStages env2 mode bt f bookTitle ?chs tags w1 = (Inr (withoutReasoning a), w2)
          \<and> sameStore w1 w2"
  proof (cases mode)
    case SummaryMode
    then show ?thesis using summary_mode_replay[OF rs[unfolded SummaryMode] reads] by simp
  next
    case MindmapMode
    then show ?thesis
      using mindmap_mode_replay[OF rs[unfolded MindmapMode] reads] by (auto simp: sameStore_def)
  next
    case CombinedMindmapMode
    then show ?thesis
      using combined_mode_replay[OF rs[unfolded CombinedMindmapMode] reads] shape
      by (auto simp: sameStore_def)
  qed
  then obtain w2 where
    "runStages env2 mode bt f bookTitle ?chs tags w1 = (Inr (withoutReasoning a), w2)"
    and "sameStore w1 w2" by blast
  then show ?thesis
    using sel by (auto simp: handleStartProcessing_def sameStore_def)
qed

theorem second_run_is_served_from_cache_witness:
  "(\<exists>w2. handleStartProcessing healthyEnv SummaryMode NonFiction (u16 ''a.epub'') (u16 ''T'')
          [chapterIntro] {u16 ''c1''} Map.empty cachedWorld =
            (Finished (withoutReasoning introArtifacts), w2)
        \<and> items w2 = items cachedWorld \<and> calls w2 = calls cachedWorld)
   \<and> (\<exists>w2. handleStartProcessing healthyEnv MindmapMode NonFiction (u16 ''a.epub'') (u16 ''T'')
          [chapterIntro, chapterEnd] {u16 ''c1'', u16 ''c3''} tagsAct1 act1World =
            (Finished (BookMindMap [act1Group] (VMindMap act1Merged)), w2)
        \<and> items w2 = items act1World \<and> calls w2 = calls act1World)
   \<and> (\<exists>w2. handleStartProcessing healthyEnv CombinedMindmapMode NonFiction (u16 ''a.epub'') (u16 ''T'')
          [chapterIntro] {u16 ''c1''} Map.empty wholeBookWorld =
            (Finished (BookMindMap [wholeBookGroup] (VMindMap exampleMap)), w2)
        \<and> items w2 = items wholeBookWorld \<and> calls w2 = calls wholeBookWorld)"
proof -
  have reads: "\<forall>k. \<not> fails healthyEnv (GetItem k)" by (simp add: healthyEnv_def)
  have shape: "\<exists>m. combinedMindMap (BookMindMap [wholeBookGroup] (VMindMap exampleMap)) = VMindMap m"
    by simp
  have same: "withoutReasoning (BookMindMap [act1Group] (VMindMap act1Merged)) =
                BookMindMap [act1Group] (VMindMap act1Merged)"
    "withoutReasoning (BookMindMap [wholeBookGroup] (VMindMap exampleMap)) =
                BookMindMap [wholeBookGroup] (VMindMap exampleMap)"
    by (simp_all add: withoutReasoning_def forgetGroupReasoning_def act1Group_def wholeBookGroup_def)
  show ?thesis
    using second_run_is_served_from_cache[OF intro_first_run reads]
      second_run_is_served_from_cache[OF act1_first_run reads]
      second_run_is_served_from_cache[OF wholeBook_first_run reads] shape same
    by simp
qed

text \<open>
  Claim C1, as stated, fails: the artifacts of the second run are not identical to those
  of the first. The first run returns the reasoning \<open>Why\<close> with the summary of the group;
  only the summary is cached, and the second run with the same arguments returns the
  group without reasoning.
\<close>

theorem second_run_differs_in_reasoning:
  "handleStartProcessing answeringEnv SummaryMode NonFiction (u16 ''a.epub'') (u16 ''T'')
     [chapterIntro] {u16 ''c1''} Map.empty emptyWorld = (Finished introArtifacts, cachedWorld)
   \<and> fst (handleStartProcessing answeringEnv SummaryMode NonFiction (u16 ''a.epub'') (u16 ''T'')
     [chapterIntro] {u16 ''c1''} Map.empty cachedWorld) \<noteq> Finished introArtifacts"
  by (simp add: run_defs stage_defs ai_defs io_defs key_defs answeringEnv_def emptyWorld_def
      chapterIntro_def introArtifacts_def cachedWorld_def)

lemma intro_first_summary:
  "processSummaryGroup answeringEnv introGroup (u16 ''a.epub'') True emptyWorld =
     (Inr introResult, summarizedWorld)"
  by (simp add: stage_defs ai_defs io_defs key_defs answeringEnv_def emptyWorld_def chapterIntro_def introGroup_def introResult_def
      summarizedWorld_def)

section \<open>Cache hits\<close>

text \<open>
  Claim C5. Whenever a stage finds a value of the shape it expects under its key (a
  non-empty text for the text stages, an object with a \<open>nodeData\<close> key for the mind-map
  stages), no generation request is made: the world is unchanged but for the stream
  update. A stage that takes a stream callback and is given one invokes it exactly once,
  with the full cached value; without a callback nothing is delivered.
\<close>

theorem cache_hit_skips_generation:
  assumes "\<forall>k. \<not> fails env (GetItem k)" and "s \<noteq> []"
  shows "(map_of (items w) (generateKey f Summary (Some (groupId grp))) = Some (VString s) \<longrightarrow>
            processSummaryGroup env grp f cb w =
              (Inr (summaryGroupResult grp (s, [])),
               if cb then w\<lparr>updates := updates w @ [SummaryUpdate s None]\<rparr> else w))
       \<and> (map_of (items w) (generateKey f Connections None) = Some (VString s) \<longrightarrow>
            generateConnections env f cb w =
              (Inr s, if cb then w\<lparr>updates := updates w @ [ContentUpdate s]\<rparr> else w))
       \<and> (map_of (items w) (generateKey f Overall_summary None) = Some (VString s) \<longrightarrow>
            generateOverallSummary env f cb w =
              (Inr s, if cb then w\<lparr>updates := updates w @ [ContentUpdate s]\<rparr> else w))
       \<and> (map_of (items w) (generateKey f Character_relationship None) = Some (VString s) \<longrightarrow>
            generateCharacterRelationship env f w = (Inr s, w))
       \<and> (map_of (items w) (generateKey f Mindmap (Some (groupId grp))) = Some (VMindMap m) \<longrightarrow>
            processMindMapGroup env grp f w =
              (case nodeData m of
                 None \<Rightarrow> Inl (Exn PlainError MindMapFailed)
               | Some n \<Rightarrow> Inr (mindMapGroupResult grp m), w))
       \<and> (map_of (items w) (generateKey f Merged_mindmap None) = Some (VMindMap m) \<longrightarrow>
            mergeMindMaps env f bookTitle chs w = (Inr m, w))
       \<and> (map_of (items w) (generateKey f Combined_mindmap None) = Some (VMindMap m) \<longrightarrow>
            generateCombinedMindMap env f w = (Inr (VMindMap m), w))"
  using assms
  by (simp add: processSummaryGroup_hit generateConnections_hit generateOverallSummary_hit
      generateCharacterRelationship_hit processMindMapGroup_hit mergeMindMaps_hit
      generateCombinedMindMap_hit)

theorem cache_hit_skips_generation_witness:
  "processSummaryGroup healthyEnv introGroup (u16 ''a.epub'') True cachedWorld =
     (Inr (summaryGroupResult introGroup (u16 ''Sum'', [])),
      cachedWorld\<lparr>updates := updates cachedWorld @ [SummaryUpdate (u16 ''Sum'') None]\<rparr>)
   \<and> generateConnections healthyEnv (u16 ''a.epub'') True cachedWorld =
     (Inr (u16 ''Sum''),
      cachedWorld\<lparr>updates := updates cachedWorld @ [ContentUpdate (u16 ''Sum'')]\<rparr>)
   \<and> generateOverallSummary healthyEnv (u16 ''a.epub'') False cachedWorld =
     (Inr (u16 ''Sum''), cachedWorld)
   \<and> processMindMapGroup healthyEnv introGroup (u16 ''a.epub'') mapWorld =
     (Inr (mindMapGroupResult introGroup exampleMap), mapWorld)
   \<and> mergeMindMaps healthyEnv (u16 ''a.epub'') (u16 ''T'') [] mapWorld = (Inr exampleMap, mapWorld)
   \<and> generateCombinedMindMap healthyEnv (u16 ''a.epub'') mapWorld =
     (Inr (VMindMap exampleMap), mapWorld)"
proof -
  have reads: "\<forall>k. \<not> fails healthyEnv (GetItem k)" by (simp add: healthyEnv_def)
  have ne: "u16 ''Sum'' \<noteq> []" by (simp add: u16_def)
  have k1: "map_of (items cachedWorld) (generateKey (u16 ''a.epub'') Summary (Some (groupId introGroup)))
              = Some (VString (u16 ''Sum''))"
    and k2: "map_of (items cachedWorld) (generateKey (u16 ''a.epub'') Connections None)
              = Some (VString (u16 ''Sum''))"
    and k3: "map_of (items cachedWorld) (generateKey (u16 ''a.epub'') Overall_summary None)
              = Some (VString (u16 ''Sum''))"
    by (simp_all add: key_defs cachedWorld_def introGroup_def)
  have m1: "map_of (items mapWorld) (generateKey (u16 ''a.epub'') Mindmap (Some (groupId introGroup)))
              = Some (VMindMap exampleMap)"
    and m2: "map_of (items mapWorld) (generateKey (u16 ''a.epub'') Merged_mindmap None)
              = Some (VMindMap exampleMap)"
    and m3: "map_of (items mapWorld) (generateKey (u16 ''a.epub'') Combined_mindmap None)
              = Some (VMindMap exampleMap)"
    by (simp_all add: key_defs mapWorld_def introGroup_def)
  have nd: "nodeData exampleMap \<noteq> None" by (simp add: exampleMap_def)
  show ?thesis
    using cache_hit_skips_generation[OF reads ne, of cachedWorld "u16 ''a.epub''" introGroup True]
      cache_hit_skips_generation[OF reads ne, of cachedWorld "u16 ''a.epub''" introGroup False]
      cache_hit_skips_generation[OF reads ne, of mapWorld "u16 ''a.epub''" introGroup True
        exampleMap "u16 ''T''" "[]"]
      k1 k2 k3 m1 m2 m3 nd
    by auto
qed

text \<open>
  Claim C9. For a group whose summary is in the cache, \<open>processSummaryGroup\<close> returns the
  group and every member chapter with the summary and without reasoning, and the replayed
  stream update carries the summary only. The reasoning of the original generation is
  not cached: after any successful first run, whatever reasoning it returned, the cache
  holds the summary alone and the next run returns the same group and chapters with the
  reasoning removed.
\<close>

theorem cached_summary_has_no_reasoning:
  "(\<not> fails env (GetItem (generateKey f Summary (Some (groupId grp))))
      \<and> map_of (items w) (generateKey f Summary (Some (groupId grp))) = Some (VString s) \<and> s \<noteq> []
    \<longrightarrow> processSummaryGroup env grp f True w =
          (Inr (summaryGroupResult grp (s, [])),
           w\<lparr>updates := updates w @ [SummaryUpdate s None]\<rparr>)
        \<and> cgSummary (fst (summaryGroupResult grp (s, []))) = Some s
        \<and> cgReasoning (fst (summaryGroupResult grp (s, []))) = None
        \<and> map cid (snd (summaryGroupResult grp (s, []))) = map cid (chapters grp)
        \<and> (\<forall>c \<in> set (snd (summaryGroupResult grp (s, []))).
              summary c = Some s \<and> reasoning c = None))
   \<and> (processSummaryGroup env1 grp f cb w0 = (Inr (g1, cs1), w1)
      \<and> \<not> fails env (GetItem (generateKey f Summary (Some (groupId grp))))
    \<longrightarrow> (\<exists>s1. cgSummary g1 = Some s1
          \<and> map_of (items w1) (generateKey f Summary (Some (groupId grp))) = Some (VString s1)
          \<and> processSummaryGroup env grp f True w1 =
              (Inr (forgetGroupReasoning g1, map forgetChapterReasoning cs1),
               w1\<lparr>updates := updates w1 @ [SummaryUpdate s1 None]\<rparr>)))"
proof (intro conjI impI)
  assume h: "\<not> fails env (GetItem (generateKey f Summary (Some (groupId grp))))
      \<and> map_of (items w) (generateKey f Summary (Some (groupId grp))) = Some (VString s) \<and> s \<noteq> []"
  then show "processSummaryGroup env grp f True w =
          (Inr (summaryGroupResult grp (s, [])),
           w\<lparr>updates := updates w @ [SummaryUpdate s None]\<rparr>)"
    using processSummaryGroup_hit[of env f grp w s True] by simp
  show "cgSummary (fst (summaryGroupResult grp (s, []))) = Some s"
    and "cgReasoning (fst (summaryGroupResult grp (s, []))) = None"
    and "map cid (snd (summaryGroupResult grp (s, []))) = map cid (chapters grp)"
    and "\<forall>c \<in> set (snd (summaryGroupResult grp (s, []))). summary c = Some s \<and> reasoning c = None"
    by (auto simp: summaryGroupResult_def optReasoning_def comp_def)
next
  assume h: "processSummaryGroup env1 grp f cb w0 = (Inr (g1, cs1), w1)
      \<and> \<not> fails env (GetItem (generateKey f Summary (Some (groupId grp))))"
  then obtain s1 r where ne: "s1 \<noteq> []" and x: "(g1, cs1) = summaryGroupResult grp (s1, r)"
    and k: "map_of (items w1) (generateKey f Summary (Some (groupId grp))) = Some (VString s1)"
    using processSummaryGroup_Inr[of env1 grp f cb w0 "(g1, cs1)" w1] by blast
  have g: "cgSummary g1 = Some s1"
    using x by (simp add: summaryGroupResult_def)
  have res: "summaryGroupResult grp (s1, []) = (forgetGroupReasoning g1, map forgetChapterReasoning cs1)"
    using summaryGroupResult_forget[of grp s1 r] x[symmetric] by simp
  have "processSummaryGroup env grp f True w1 =
          (Inr (forgetGroupReasoning g1, map forgetChapterReasoning cs1),
           w1\<lparr>updates := updates w1 @ [SummaryUpdate s1 None]\<rparr>)"
    using processSummaryGroup_hit[of env f grp w1 s1 True] h k ne res by simp
  then show "\<exists>s1. cgSummary g1 = Some s1
          \<and> map_of (items w1) (generateKey f Summary (Some (groupId grp))) = Some (VString s1)
          \<and> processSummaryGroup env grp f True w1 =
              (Inr (forgetGroupReasoning g1, map forgetChapterReasoning cs1),
               w1\<lparr>updates := updates w1 @ [SummaryUpdate s1 None]\<rparr>)"
    using g k by blast
qed

theorem cached_summary_has_no_reasoning_witness:
  "processSummaryGroup healthyEnv introGroup (u16 ''a.epub'') True cachedWorld =
     (Inr (summaryGroupResult introGroup (u16 ''Sum'', [])),
      cachedWorld\<lparr>updates := updates cachedWorld @ [SummaryUpdate (u16 ''Sum'') None]\<rparr>)
   \<and> cgReasoning (fst (summaryGroupResult introGroup (u16 ''Sum'', []))) = None
   \<and> cgReasoning (fst introResult) = Some (u16 ''Why'')
   \<and> processSummaryGroup healthyEnv introGroup (u16 ''a.epub'') True summarizedWorld =
       (Inr (forgetGroupReasoning (fst introResult), map forgetChapterReasoning (snd introResult)),
        summarizedWorld\<lparr>updates := updates summarizedWorld @ [SummaryUpdate (u16 ''Sum'') None]\<rparr>)"
proof -
  have reads: "\<not> fails healthyEnv (GetItem (generateKey (u16 ''a.epub'') Summary (Some (groupId introGroup))))"
    by (simp add: healthyEnv_def)
  have ne: "u16 ''Sum'' \<noteq> []" by (simp add: u16_def)
  have k1: "map_of (items cachedWorld) (generateKey (u16 ''a.epub'') Summary (Some (groupId introGroup)))
              = Some (VString (u16 ''Sum''))"
    by (simp add: key_defs cachedWorld_def introGroup_def)
  have first: "processSummaryGroup answeringEnv introGroup (u16 ''a.epub'') True emptyWorld =
     (Inr (fst introResult, snd introResult), summarizedWorld)"
    using intro_first_summary by simp
  have s: "cgSummary (fst introResult) = Some (u16 ''Sum'')"
    and r: "cgReasoning (fst introResult) = Some (u16 ''Why'')"
    by (simp_all add: introResult_def)
  show ?thesis
    using cached_summary_has_no_reasoning[of healthyEnv "u16 ''a.epub''" introGroup cachedWorld
        "u16 ''Sum''" answeringEnv True emptyWorld "fst introResult" "snd introResult" summarizedWorld]
      reads ne k1 first s r
    by auto
qed

section \<open>Failures of the store\<close>

text \<open>
  Claim C7, as stated, fails. With a store whose reads reject, the summary stage does not
  recompute: it fails with the store's error and makes no request. With a store whose
  writes reject, the stage makes the request, delivers the final update, and then fails
  with the store's error instead of returning the computed summary.
\<close>

theorem store_failure_fails_the_stage:
  "processSummaryGroup readFailingEnv introGroup (u16 ''a.epub'') True emptyWorld =
     (Inl (Exn StoreError StoreFailed), emptyWorld)
   \<and> processSummaryGroup writeFailingEnv introGroup (u16 ''a.epub'') True emptyWorld =
     (Inl (Exn StoreError StoreFailed),
      \<lparr>items = [], calls = 1,
       updates = [SummaryUpdate (u16 ''Sum'') (Some (u16 ''Why'')),
                  SummaryUpdate (u16 ''Sum'') (Some (u16 ''Why''))]\<rparr>)"
  by (simp add: stage_defs ai_defs io_defs key_defs readFailingEnv_def writeFailingEnv_def emptyWorld_def chapterIntro_def introGroup_def)

text \<open>
  Claim C7, as amended. A failure of the persistence layer during a stage is not caught:
  a failing read fails \<open>getString\<close>, \<open>getMindMap\<close> and the stage at once, before any
  request; a failing write fails \<open>setCache\<close>, and the summary stage after its request and
  its final stream update, so the computed value is not returned. Only the deletions
  catch the failure and report \<open>false\<close>.
\<close>

theorem store_failures_propagate:
  "(fails env (GetItem (generateKey f ty e)) \<longrightarrow>
      getString env f ty e w = (Inl (Exn StoreError StoreFailed), w)
      \<and> getMindMap env f ty e w = (Inl (Exn StoreError StoreFailed), w))
   \<and> (fails env (SetItem (generateKey f ty e)) \<longrightarrow>
      setCache env f ty v e w = (Inl (Exn StoreError StoreFailed), w))
   \<and> (fails env (GetItem (generateKey f Summary (Some (groupId grp)))) \<longrightarrow>
      processSummaryGroup env grp f cb w = (Inl (Exn StoreError StoreFailed), w))
   \<and> (\<not> fails env (GetItem (generateKey f Summary (Some (groupId grp))))
      \<and> fails env (SetItem (generateKey f Summary (Some (groupId grp))))
      \<and> map_of (items w) (generateKey f Summary (Some (groupId grp))) = None
      \<and> chapters grp \<noteq> []
      \<and> summarizeChapter (ai env (calls w)) (Some handleSummaryUpdate) newThrottle = (Inr (s, r), h)
      \<longrightarrow> processSummaryGroup env grp f True w =
            (Inl (Exn StoreError StoreFailed),
             w\<lparr>calls := calls w + 1, updates := updates w @ emitted h @ [SummaryUpdate s (Some r)]\<rparr>))
   \<and> (fails env (RemoveItem (generateKey f ty e)) \<longrightarrow>
      deleteCache env f ty e w = (Inr False, w))"
  by (auto simp: processSummaryGroup_def generateSummary_def io_defs deleteCache_def removeItem_def)

theorem store_failures_propagate_witness:
  "getString readFailingEnv (u16 ''a.epub'') Summary (Some (u16 ''Intro'')) emptyWorld =
     (Inl (Exn StoreError StoreFailed), emptyWorld)
   \<and> setCache writeFailingEnv (u16 ''a.epub'') Summary (VString (u16 ''Sum'')) (Some (u16 ''Intro''))
       emptyWorld = (Inl (Exn StoreError StoreFailed), emptyWorld)
   \<and> processSummaryGroup readFailingEnv introGroup (u16 ''a.epub'') False emptyWorld =
     (Inl (Exn StoreError StoreFailed), emptyWorld)
   \<and> fst (processSummaryGroup writeFailingEnv introGroup (u16 ''a.epub'') True emptyWorld) =
     Inl (Exn StoreError StoreFailed)"
proof -
  have rf: "fails readFailingEnv (GetItem k)" for k by (simp add: readFailingEnv_def)
  have wf: "fails writeFailingEnv (SetItem k)" and wr: "\<not> fails writeFailingEnv (GetItem k)" for k
    by (simp_all add: writeFailingEnv_def)
  have miss: "map_of (items emptyWorld) k = None" for k by (simp add: emptyWorld_def)
  have chs: "chapters introGroup \<noteq> []" by (simp add: introGroup_def)
  obtain h where sc: "summarizeChapter (ai writeFailingEnv (calls emptyWorld))
      (Some handleSummaryUpdate) newThrottle = (Inr (u16 ''Sum'', u16 ''Why''), h)"
    by (simp add: ai_defs writeFailingEnv_def emptyWorld_def u16_def)
  have gid: "groupId introGroup = u16 ''Intro''" by (simp add: introGroup_def)
  show ?thesis
    using store_failures_propagate[of readFailingEnv "u16 ''a.epub''" Summary "Some (u16 ''Intro'')"
        emptyWorld "VString (u16 ''Sum'')" introGroup False]
      store_failures_propagate[of writeFailingEnv "u16 ''a.epub''" Summary "Some (u16 ''Intro'')"
        emptyWorld "VString (u16 ''Sum'')" introGroup True "u16 ''Sum''" "u16 ''Why''" h]
      rf wf wr miss chs sc gid
    by simp
qed

section \<open>Cancellation and malformed output\<close>

lemma rethrow_name: "rethrow wrap r = Inl e \<Longrightarrow> name e = PlainError"
  by (auto simp: rethrow_def split: sum.splits)

lemma processSummaryGroup_error_name:
  "processSummaryGroup env grp f cb w = (Inl e, w') \<Longrightarrow> name e \<noteq> AbortError"
  by (auto simp: processSummaryGroup_def generateSummary_def io_defs summarizeChapter_def
      split: prod.splits sum.splits if_splits option.splits CacheValue.splits
      dest!: rethrow_name)

text \<open>
  Claim C3. A stage whose request is aborted, before it starts or in the middle of the
  stream, writes nothing to the store, but it does not raise the cancellation signal:
  the \<open>catch\<close> of \<open>summarizeChapter\<close> replaces the \<open>AbortError\<close> by a plain \<open>Error\<close>, and
  the pipeline, which tests the name of the error, reports a failed run instead of a
  cancelled one.
\<close>

theorem abort_surfaces_as_plain_error:
  "processSummaryGroup healthyEnv introGroup (u16 ''a.epub'') True emptyWorld =
     (Inl (Exn PlainError RequestWasAborted), \<lparr>items = [], calls = 1, updates = []\<rparr>)
   \<and> processSummaryGroup cancellingEnv introGroup (u16 ''a.epub'') True emptyWorld =
     (Inl (Exn PlainError FetchAborted),
      \<lparr>items = [], calls = 1, updates = [SummaryUpdate (u16 ''Par'') (Some [])]\<rparr>)
   \<and> handleStartProcessing healthyEnv SummaryMode NonFiction (u16 ''a.epub'') (u16 ''T'')
       [chapterIntro] {u16 ''c1''} Map.empty emptyWorld =
     (Failed RequestWasAborted, \<lparr>items = [], calls = 1, updates = []\<rparr>)
   \<and> handleStartProcessing cancellingEnv SummaryMode NonFiction (u16 ''a.epub'') (u16 ''T'')
       [chapterIntro] {u16 ''c1''} Map.empty emptyWorld =
     (Failed FetchAborted,
      \<lparr>items = [], calls = 1, updates = [SummaryUpdate (u16 ''Par'') (Some [])]\<rparr>)"
  by (simp add: run_defs stage_defs ai_defs io_defs key_defs healthyEnv_def cancellingEnv_def emptyWorld_def chapterIntro_def introGroup_def)

text \<open>
  Claim C4. An empty summary is rejected before anything is written. A generated mind map
  whose \<open>nodeData\<close> is \<open>null\<close> is not: \<open>processMindMapGroup\<close> writes it to the store and
  only then raises the failure. The next read of the key returns the rootless map, and a
  retry, even with a provider that would now answer well, fails on the cached value
  without a request.
\<close>

theorem rootless_map_is_cached_before_validation:
  "processMindMapGroup nullRootEnv introGroup (u16 ''a.epub'') emptyWorld =
     (Inl (Exn PlainError MindMapFailed),
      \<lparr>items = [(u16 ''book_a_chapter_Intro_mindmap'', VMindMap nullRoot)], calls = 1, updates = []\<rparr>)
   \<and> getMindMap nullRootEnv (u16 ''a.epub'') Mindmap (Some (u16 ''Intro''))
       \<lparr>items = [(u16 ''book_a_chapter_Intro_mindmap'', VMindMap nullRoot)], calls = 1, updates = []\<rparr> =
     (Inr (Some nullRoot),
      \<lparr>items = [(u16 ''book_a_chapter_Intro_mindmap'', VMindMap nullRoot)], calls = 1, updates = []\<rparr>)
   \<and> processMindMapGroup mapEnv introGroup (u16 ''a.epub'')
       \<lparr>items = [(u16 ''book_a_chapter_Intro_mindmap'', VMindMap nullRoot)], calls = 1, updates = []\<rparr> =
     (Inl (Exn PlainError MindMapFailed),
      \<lparr>items = [(u16 ''book_a_chapter_Intro_mindmap'', VMindMap nullRoot)], calls = 1, updates = []\<rparr>)
   \<and> processSummaryGroup emptyAnswerEnv introGroup (u16 ''a.epub'') True emptyWorld =
     (Inl (Exn PlainError EmptySummary), \<lparr>items = [], calls = 1, updates = []\<rparr>)"
  by (simp add: stage_defs ai_defs io_defs key_defs nullRootEnv_def nullRoot_def mapEnv_def exampleMap_def emptyAnswerEnv_def
      emptyWorld_def chapterIntro_def introGroup_def)

section \<open>Merging the chapter mind maps\<close>

text \<open>
  Claim C8, as stated, fails. With the chapters \<open>Intro\<close> and \<open>End\<close> under one tag there is
  one group and one generated mind map, but the root of the merged map has two children,
  one per chapter, each repeating the children of the root of the group's map under a
  node named after the chapter.
\<close>

theorem merged_children_are_chapters_not_groups:
  "fst (handleStartProcessing mapEnv MindmapMode NonFiction (u16 ''a.epub'') (u16 ''T'')
     [chapterIntro, chapterEnd] {u16 ''c1'', u16 ''c3''} tagsAct1 emptyWorld) =
     Finished (BookMindMap [act1Group]
       (VMindMap
         \<lparr>nodeData = Some (NodeObj (u16 ''T'') (u16 ''0'') (Some [[20840, 20070]])
            [NodeObj (u16 ''Intro'') (u16 ''chapter_1'') None [NodeObj (u16 ''Leaf'') (u16 ''l'') None []],
             NodeObj (u16 ''End'') (u16 ''chapter_2'') None [NodeObj (u16 ''Leaf'') (u16 ''l'') None []]]),
          arrows = Some [], summaries = Some []\<rparr>))"
  by (simp add: run_defs stage_defs ai_defs io_defs key_defs hash_defs mapEnv_def
      exampleMap_def emptyWorld_def chapterIntro_def chapterEnd_def tagsAct1_def
      act1Group_def)

text \<open>
  Claim C8, as amended. On a miss \<open>mergeMindMaps\<close> builds a root labelled with the book
  title, with id \<open>0\<close>, whose children are one node per processed chapter, in order: the
  node of the chapter at position \<open>i\<close> is labelled with the chapter's title, has the id
  \<open>chapter_\<close> followed by \<open>i + 1\<close>, and holds the children of the root of that chapter's
  mind map. The merged map is written under the kind \<open>merged_mindmap\<close>; entering the
  merge again, with whatever chapters, returns the cached map and writes nothing.
\<close>

theorem mergeMindMaps_one_node_per_chapter:
  assumes "\<not> fails env (GetItem (generateKey f Merged_mindmap None))"
    and "\<not> fails env (SetItem (generateKey f Merged_mindmap None))"
  shows "(map_of (items w) (generateKey f Merged_mindmap None) = Some (VMindMap m) \<longrightarrow>
            mergeMindMaps env f bookTitle chs w = (Inr m, w))
       \<and> ((\<forall>m. map_of (items w) (generateKey f Merged_mindmap None) \<noteq> Some (VMindMap m)) \<longrightarrow>
            mergeMindMaps env f bookTitle chs w =
              (Inr (mergedMap bookTitle chs),
               w\<lparr>items := AList.update (generateKey f Merged_mindmap None)
                            (VMindMap (mergedMap bookTitle chs)) (items w)\<rparr>)
            \<and> mergeMindMaps env f bookTitle chs'
                (w\<lparr>items := AList.update (generateKey f Merged_mindmap None)
                            (VMindMap (mergedMap bookTitle chs)) (items w)\<rparr>) =
              (Inr (mergedMap bookTitle chs),
               w\<lparr>items := AList.update (generateKey f Merged_mindmap None)
                            (VMindMap (mergedMap bookTitle chs)) (items w)\<rparr>))
       \<and> (\<exists>kids. nodeData (mergedMap bookTitle chs) =
                    Some (NodeObj bookTitle (u16 ''0'') (Some [[20840, 20070]]) kids)
              \<and> length kids = length chs
              \<and> (\<forall>i < length chs.
                    kids ! i =
                      NodeObj (title (chs ! i)) (u16 ''chapter_'' @ toStringRadix 10 (i + 1)) None
                        (case mindMap (chs ! i) of
                           None \<Rightarrow> []
                         | Some cm \<Rightarrow> (case nodeData cm of None \<Rightarrow> [] | Some n \<Rightarrow> children n))))"
proof (intro conjI impI)
  assume "map_of (items w) (generateKey f Merged_mindmap None) = Some (VMindMap m)"
  then show "mergeMindMaps env f bookTitle chs w = (Inr m, w)"
    using assms(1) by (simp add: mergeMindMaps_hit)
next
  assume miss: "\<forall>m. map_of (items w) (generateKey f Merged_mindmap None) \<noteq> Some (VMindMap m)"
  then show "mergeMindMaps env f bookTitle chs w =
              (Inr (mergedMap bookTitle chs),
               w\<lparr>items := AList.update (generateKey f Merged_mindmap None)
                            (VMindMap (mergedMap bookTitle chs)) (items w)\<rparr>)"
    using assms
    by (auto simp: mergeMindMaps_def io_defs split: option.splits CacheValue.splits)
  show "mergeMindMaps env f bookTitle chs'
                (w\<lparr>items := AList.update (generateKey f Merged_mindmap None)
                            (VMindMap (mergedMap bookTitle chs)) (items w)\<rparr>) =
              (Inr (mergedMap bookTitle chs),
               w\<lparr>items := AList.update (generateKey f Merged_mindmap None)
                            (VMindMap (mergedMap bookTitle chs)) (items w)\<rparr>)"
    using assms(1) by (simp add: mergeMindMaps_hit update_conv')
next
  show "\<exists>kids. nodeData (mergedMap bookTitle chs) =
                    Some (NodeObj bookTitle (u16 ''0'') (Some [[20840, 20070]]) kids)
              \<and> length kids = length chs
              \<and> (\<forall>i < length chs.
                    kids ! i =
                      NodeObj (title (chs ! i)) (u16 ''chapter_'' @ toStringRadix 10 (i + 1)) None
                        (case mindMap (chs ! i) of
                           None \<Rightarrow> []
                         | Some cm \<Rightarrow> (case nodeData cm of None \<Rightarrow> [] | Some n \<Rightarrow> children n)))"
    by (rule exI[of _ "map chapterNode (enumerate 0 chs)"])
       (simp add: mergedMap_def chapterNode_def nth_enumerate_eq)
qed

theorem mergeMindMaps_one_node_per_chapter_witness:
  "mergeMindMaps healthyEnv (u16 ''a.epub'') (u16 ''T'') [] mapWorld = (Inr exampleMap, mapWorld)
   \<and> fst (mergeMindMaps healthyEnv (u16 ''a.epub'') (u16 ''T'') [processedIntro, processedEnd] emptyWorld) =
       Inr (mergedMap (u16 ''T'') [processedIntro, processedEnd])
   \<and> nodeData (mergedMap (u16 ''T'') [processedIntro, processedEnd]) =
       Some (NodeObj (u16 ''T'') (u16 ''0'') (Some [[20840, 20070]])
          [NodeObj (u16 ''Intro'') (u16 ''chapter_1'') None [NodeObj (u16 ''Leaf'') (u16 ''l'') None []],
           NodeObj (u16 ''End'') (u16 ''chapter_2'') None [NodeObj (u16 ''Leaf'') (u16 ''l'') None []]])"
proof -
  have r: "\<not> fails healthyEnv (GetItem (generateKey (u16 ''a.epub'') Merged_mindmap None))"
    and s: "\<not> fails healthyEnv (SetItem (generateKey (u16 ''a.epub'') Merged_mindmap None))"
    by (simp_all add: healthyEnv_def)
  have hit: "map_of (items mapWorld) (generateKey (u16 ''a.epub'') Merged_mindmap None) = Some (VMindMap exampleMap)"
    by (simp add: key_defs mapWorld_def)
  have miss: "\<forall>m. map_of (items emptyWorld) (generateKey (u16 ''a.epub'') Merged_mindmap None) \<noteq> Some (VMindMap m)"
    by (simp add: emptyWorld_def)
  have nd: "nodeData (mergedMap (u16 ''T'') [processedIntro, processedEnd]) =
       Some (NodeObj (u16 ''T'') (u16 ''0'') (Some [[20840, 20070]])
          [NodeObj (u16 ''Intro'') (u16 ''chapter_1'') None [NodeObj (u16 ''Leaf'') (u16 ''l'') None []],
           NodeObj (u16 ''End'') (u16 ''chapter_2'') None [NodeObj (u16 ''Leaf'') (u16 ''l'') None []]])"
    by (simp add: mergedMap_def chapterNode_def processedIntro_def processedEnd_def exampleMap_def
        u16_def toStringRadix.simps digitChar_def)
  show ?thesis
    using mergeMindMaps_one_node_per_chapter[OF r s, of mapWorld exampleMap "u16 ''T''" "[]"]
      mergeMindMaps_one_node_per_chapter[OF r s, of emptyWorld _ "u16 ''T''" "[processedIntro, processedEnd]"]
      hit miss nd
    by simp
qed

end
